theory Spec2Isabelle
  imports Complex_Main
begin

section \<open>Data model\<close>

text \<open>
  The technical-analysis pipeline of the chatbot (the module exporting
  \<^verbatim>\<open>applyIndicators\<close>, \<^verbatim>\<open>detectTrend\<close> and \<^verbatim>\<open>getMultiTimeframeAnalysis\<close>).

  The \<^verbatim>\<open>number\<close> fields of a candle are modelled as reals: rounding, infinities and NaN are
  not represented there. (The volatility and the period change, which the code can
  compute as an infinity or NaN, have the type \<open>jsnum\<close> below.) An optional field
  (\<^verbatim>\<open>ema_20?: number\<close>) is a \<open>number option\<close>, with \<open>None\<close> for \<^verbatim>\<open>undefined\<close>. The field \<^verbatim>\<open>open\<close> is
  named \<open>open_price\<close> here.
\<close>

type_synonym number = real

record CoinData =
  timestamp :: string
  open_price :: number
  high :: number
  low :: number
  close :: number
  volume :: "number option"
  ema_20 :: "number option"
  rsi_14 :: "number option"
  macd :: "number option"
  macd_signal :: "number option"
  bb_upper :: "number option"
  bb_lower :: "number option"
  obv :: "number option"

subsection \<open>JavaScript arrays with holes\<close>

text \<open>
  The indicator functions start from \<^verbatim>\<open>[]\<close> and assign by index (\<^verbatim>\<open>ema[period - 1] = ...\<close>),
  which leaves holes below the first index written. Such an array is a list of options:
  \<open>None\<close> is a hole. Reading a hole, or past the end, gives \<^verbatim>\<open>undefined\<close>; writing past the
  end extends the array with holes.
\<close>

type_synonym sparse = "number option list"

definition js_get :: "'a option list \<Rightarrow> nat \<Rightarrow> 'a option" where
  "js_get arr i = (if i < length arr then arr ! i else None)"

definition js_set :: "'a option list \<Rightarrow> nat \<Rightarrow> 'a \<Rightarrow> 'a option list" where
  "js_set arr i v =
     (if i < length arr then arr[i := Some v]
      else arr @ replicate (i - length arr) None @ [Some v])"

text \<open>
  \<^verbatim>\<open>x || d\<close> on an optional number: \<^verbatim>\<open>undefined\<close> and \<^verbatim>\<open>0\<close> are both falsy, so both give \<open>d\<close>.
  \<^verbatim>\<open>x ?? d\<close> replaces \<^verbatim>\<open>undefined\<close> only.
\<close>

definition js_or :: "number option \<Rightarrow> number \<Rightarrow> number" where
  "js_or x d = (case x of None \<Rightarrow> d | Some v \<Rightarrow> if v = 0 then d else v)"

definition js_nullish :: "number option \<Rightarrow> number \<Rightarrow> number" where
  "js_nullish x d = (case x of None \<Rightarrow> d | Some v \<Rightarrow> v)"

text \<open>\<^verbatim>\<open>arr.slice(a, b)\<close> for \<open>0 \<le> a \<le> b\<close>: both ends are clamped to the length.\<close>

definition slice :: "'a list \<Rightarrow> nat \<Rightarrow> nat \<Rightarrow> 'a list" where
  "slice arr a b = take (b - a) (drop a arr)"

subsection \<open>Numbers that need not be finite\<close>

text \<open>
  The closes of a candle are finite numbers, and the indicators divide only by a period
  or by a mean loss that is not zero. The volatility and the period change divide by a
  close and take a logarithm of a ratio of closes, so they can be an infinity or NaN;
  they are values of \<open>jsnum\<close>, and the operations below are those of JavaScript on it.
  Arithmetic on finite operands is exact (rounding and overflow are not represented),
  and a zero is the positive zero.
\<close>

datatype jsnum = Finite real | PosInf | NegInf | NaN

fun js_neg :: "jsnum \<Rightarrow> jsnum" where
  "js_neg (Finite a) = Finite (- a)"
| "js_neg PosInf = NegInf"
| "js_neg NegInf = PosInf"
| "js_neg NaN = NaN"

fun js_add :: "jsnum \<Rightarrow> jsnum \<Rightarrow> jsnum" where
  "js_add (Finite a) (Finite b) = Finite (a + b)"
| "js_add NaN y = NaN"
| "js_add x NaN = NaN"
| "js_add PosInf NegInf = NaN"
| "js_add NegInf PosInf = NaN"
| "js_add PosInf y = PosInf"
| "js_add x PosInf = PosInf"
| "js_add NegInf y = NegInf"
| "js_add x NegInf = NegInf"

definition js_sub :: "jsnum \<Rightarrow> jsnum \<Rightarrow> jsnum" where
  "js_sub x y = js_add x (js_neg y)"

fun js_mul :: "jsnum \<Rightarrow> jsnum \<Rightarrow> jsnum" where
  "js_mul (Finite a) (Finite b) = Finite (a * b)"
| "js_mul NaN y = NaN"
| "js_mul x NaN = NaN"
| "js_mul (Finite a) y = (if a = 0 then NaN else if a > 0 then y else js_neg y)"
| "js_mul x (Finite b) = (if b = 0 then NaN else if b > 0 then x else js_neg x)"
| "js_mul PosInf y = y"
| "js_mul NegInf y = js_neg y"

fun js_div :: "jsnum \<Rightarrow> jsnum \<Rightarrow> jsnum" where
  "js_div (Finite a) (Finite b) =
     (if b \<noteq> 0 then Finite (a / b)
      else if a > 0 then PosInf else if a < 0 then NegInf else NaN)"
| "js_div NaN y = NaN"
| "js_div x NaN = NaN"
| "js_div (Finite a) y = Finite 0"
| "js_div x (Finite b) = (if b < 0 then js_neg x else x)"
| "js_div x y = NaN"

text \<open>\<^verbatim>\<open>Math.pow(x, 2)\<close>, \<^verbatim>\<open>Math.sqrt\<close> and \<^verbatim>\<open>Math.log\<close>.\<close>

fun js_square :: "jsnum \<Rightarrow> jsnum" where
  "js_square (Finite a) = Finite (a ^ 2)"
| "js_square PosInf = PosInf"
| "js_square NegInf = PosInf"
| "js_square NaN = NaN"

fun js_sqrt :: "jsnum \<Rightarrow> jsnum" where
  "js_sqrt (Finite a) = (if a < 0 then NaN else Finite (sqrt a))"
| "js_sqrt PosInf = PosInf"
| "js_sqrt NegInf = NaN"
| "js_sqrt NaN = NaN"

fun js_log :: "jsnum \<Rightarrow> jsnum" where
  "js_log (Finite a) = (if a < 0 then NaN else if a = 0 then NegInf else Finite (ln a))"
| "js_log PosInf = PosInf"
| "js_log NegInf = NaN"
| "js_log NaN = NaN"

text \<open>The comparisons \<^verbatim>\<open>x > c\<close> and \<^verbatim>\<open>x < c\<close> with a finite constant: both are false on NaN.\<close>

fun js_gt :: "jsnum \<Rightarrow> real \<Rightarrow> bool" where
  "js_gt (Finite a) c = (a > c)"
| "js_gt PosInf c = True"
| "js_gt NegInf c = False"
| "js_gt NaN c = False"

fun js_lt :: "jsnum \<Rightarrow> real \<Rightarrow> bool" where
  "js_lt (Finite a) c = (a < c)"
| "js_lt PosInf c = False"
| "js_lt NegInf c = True"
| "js_lt NaN c = False"

section \<open>Indicator engine\<close>

text \<open>
  Every \<open>period\<close> below is a positive integer: the call sites pass 20, 14 and 20. (With
  \<open>period = 0\<close> the source divides \<open>0 / 0\<close> and reduces empty slices, which the model
  does not represent.)
\<close>

subsection \<open>calculateEMA\<close>

text \<open>
  The second loop, \<^verbatim>\<open>for (let i = period; i < data.length; i++)\<close>. The argument \<open>prev\<close> is
  the value of \<^verbatim>\<open>ema[i - 1]\<close>, which the iteration before (or the seed) has written.
\<close>

function ema_loop :: "number list \<Rightarrow> number \<Rightarrow> nat \<Rightarrow> number \<Rightarrow> sparse \<Rightarrow> sparse" where
  "ema_loop data multiplier i prev ema =
     (if i < length data
      then (let e = (data ! i - prev) * multiplier + prev
            in ema_loop data multiplier (Suc i) e (js_set ema i e))
      else ema)"
  by pat_completeness auto
termination
  by (relation "measure (\<lambda>(data, multiplier, i, prev, ema). length data - i)") auto

declare ema_loop.simps [simp del]

definition calculateEMA :: "number list \<Rightarrow> nat \<Rightarrow> sparse" where
  "calculateEMA data period =
     (let multiplier = 2 / (real period + 1);
          sum = foldl (\<lambda>sum x. sum + x) 0 (take period data);
          seed = sum / real period;
          ema = js_set [] (period - 1) seed
      in ema_loop data multiplier period seed ema)"

subsection \<open>calculateRSI\<close>

definition gains_of :: "number list \<Rightarrow> number list" where
  "gains_of data =
     map (\<lambda>i. let change = data ! i - data ! (i - 1) in if change > 0 then change else 0)
       [1..<length data]"

definition losses_of :: "number list \<Rightarrow> number list" where
  "losses_of data =
     map (\<lambda>i. let change = data ! i - data ! (i - 1) in if change < 0 then \<bar>change\<bar> else 0)
       [1..<length data]"

text \<open>
  The body of the second loop: the value stored in \<^verbatim>\<open>rsi[i]\<close>, for \<open>period - 1 \<le> i\<close>. The
  slices hold \<open>period\<close> elements, and \<^verbatim>\<open>reduce((a, b) => a + b)\<close> is their sum.
\<close>

definition rsi_value :: "number list \<Rightarrow> number list \<Rightarrow> nat \<Rightarrow> nat \<Rightarrow> number" where
  "rsi_value gains losses period i =
     (let avgGain = sum_list (slice gains (Suc i - period) (Suc i)) / real period;
          avgLoss = sum_list (slice losses (Suc i - period) (Suc i)) / real period
      in if avgLoss = 0 then 100
         else (let rs = avgGain / avgLoss in 100 - 100 / (1 + rs)))"

definition calculateRSI :: "number list \<Rightarrow> nat \<Rightarrow> sparse" where
  "calculateRSI data period =
     (let gains = gains_of data; losses = losses_of data
      in foldl (\<lambda>rsi i. js_set rsi i (rsi_value gains losses period i)) []
           [period - 1..<length gains])"

subsection \<open>calculateBollingerBands\<close>

record BollingerBands =
  sma :: sparse
  upperBand :: sparse
  lowerBand :: sparse

definition bb_step :: "number list \<Rightarrow> nat \<Rightarrow> number \<Rightarrow> BollingerBands \<Rightarrow> nat \<Rightarrow> BollingerBands" where
  "bb_step data period stdDev bb i =
     (let sl = slice data (Suc i - period) (Suc i);
          mean = sum_list sl / real period;
          variance = foldl (\<lambda>sum val. sum + (val - mean) ^ 2) 0 sl / real period;
          standardDeviation = sqrt variance
      in \<lparr>sma = js_set (sma bb) i mean,
          upperBand = js_set (upperBand bb) i (mean + standardDeviation * stdDev),
          lowerBand = js_set (lowerBand bb) i (mean - standardDeviation * stdDev)\<rparr>)"

definition calculateBollingerBands :: "number list \<Rightarrow> nat \<Rightarrow> number \<Rightarrow> BollingerBands" where
  "calculateBollingerBands data period stdDev =
     foldl (bb_step data period stdDev) \<lparr>sma = [], upperBand = [], lowerBand = []\<rparr>
       [period - 1..<length data]"

subsection \<open>applyIndicators\<close>

text \<open>
  The callback of \<^verbatim>\<open>data.map((item, index) => ({...item, ema_20: ..., ...}))\<close>. For
  \<open>index = 0\<close> the source reads \<^verbatim>\<open>rsi14[-1]\<close>, which is \<^verbatim>\<open>undefined\<close>. (The chat module
  holds a second, identical copy of the indicator functions and of \<^verbatim>\<open>detectTrend\<close>.)
\<close>

definition annotate :: "sparse \<Rightarrow> sparse \<Rightarrow> BollingerBands \<Rightarrow> nat \<Rightarrow> CoinData \<Rightarrow> CoinData" where
  "annotate ema20 rsi14 bb index item =
     item\<lparr>ema_20 := Some (js_or (js_get ema20 index) 0),
          rsi_14 := Some (js_or (if index = 0 then None else js_get rsi14 (index - 1)) 50),
          bb_upper := Some (js_or (js_get (upperBand bb) index) 0),
          bb_lower := Some (js_or (js_get (lowerBand bb) index) 0),
          macd := Some 0,
          macd_signal := Some 0,
          obv := Some 0\<rparr>"

definition applyIndicators :: "CoinData list \<Rightarrow> CoinData list" where
  "applyIndicators data =
     (let closes = map close data;
          ema20 = calculateEMA closes 20;
          rsi14 = calculateRSI closes 14;
          bb = calculateBollingerBands closes 20 2
      in map (\<lambda>index. annotate ema20 rsi14 bb index (data ! index)) [0..<length data])"

section \<open>Trend and volatility classifier\<close>

definition detectTrend :: "CoinData list \<Rightarrow> string" where
  "detectTrend data =
     (if length data < 5 then ''Insufficient data''
      else (let latest = data ! (length data - 1);
                prev = data ! (length data - 5);
                latestEma = js_nullish (ema_20 latest) 0;
                prevEma = js_nullish (ema_20 prev) 0;
                latestRsi = js_nullish (rsi_14 latest) 50
            in if latestEma > prevEma \<and> latestRsi > 55 then ''Uptrend''
               else if latestEma < prevEma \<and> latestRsi < 45 then ''Downtrend''
               else ''Sideways''))"

text \<open>
  \<^verbatim>\<open>data.slice(1).map((item, index) => Math.log(item.close / data[index].close))\<close>: the item
  at \<open>index\<close> of the slice is \<open>data ! Suc index\<close>.
\<close>

definition calculateVolatility :: "CoinData list \<Rightarrow> jsnum" where
  "calculateVolatility data =
     (if length data < 2 then Finite 0
      else (let returns = map (\<lambda>index. js_log (js_div (Finite (close (data ! Suc index)))
                                                        (Finite (close (data ! index)))))
                            [0..<length data - 1];
                mean = js_div (foldl (\<lambda>sum r. js_add sum r) (Finite 0) returns)
                         (Finite (real (length returns)));
                variance = js_div (foldl (\<lambda>sum r. js_add sum (js_square (js_sub r mean)))
                                     (Finite 0) returns)
                             (Finite (real (length returns)))
            in js_mul (js_sqrt variance) (Finite (sqrt 252))))"

definition calculatePriceChange :: "CoinData list \<Rightarrow> jsnum" where
  "calculatePriceChange data =
     (if length data < 2 then Finite 0
      else (let firstPrice = close (data ! 0);
                lastPrice = close (data ! (length data - 1))
            in js_mul (js_div (Finite (lastPrice - firstPrice)) (Finite firstPrice)) (Finite 100)))"

section \<open>Multi-timeframe synthesizer\<close>

record TimeframeData =
  timeframe :: string
  duration :: "string option"
  data :: "CoinData list"
  analysis :: string
  trend :: string
  volatility :: jsnum
  priceChange :: jsnum
  volume24h :: "number option"

text \<open>The field \<^verbatim>\<open>timestamp\<close> of the analysis is named \<open>analysisTimestamp\<close> here.\<close>

record MultiTimeframeAnalysis =
  symbol :: string
  analysisTimestamp :: string
  timeframes :: "TimeframeData list"
  overallSentiment :: string
  riskLevel :: string
  tradingRecommendation :: string

subsection \<open>generateOverallAnalysis\<close>

text \<open>The four counters of the loop over the timeframes, and one iteration of it.\<close>

record Tally =
  bullishCount :: nat
  bearishCount :: nat
  totalVolatility :: jsnum
  validTimeframes :: nat

definition tally_step :: "Tally \<Rightarrow> TimeframeData \<Rightarrow> Tally" where
  "tally_step s tf =
     (if length (data tf) > 0
      then (let s1 = s\<lparr>validTimeframes := validTimeframes s + 1,
                        totalVolatility := js_add (totalVolatility s) (volatility tf)\<rparr>
            in if trend tf = ''Uptrend'' then s1\<lparr>bullishCount := bullishCount s1 + 1\<rparr>
               else if trend tf = ''Downtrend'' then s1\<lparr>bearishCount := bearishCount s1 + 1\<rparr>
               else s1)
      else s)"

record OverallAnalysis =
  sentiment :: string
  risk :: string
  recommendation :: string

definition generateOverallAnalysis :: "TimeframeData list \<Rightarrow> OverallAnalysis" where
  "generateOverallAnalysis tfs =
     (let s = foldl tally_step
                \<lparr>bullishCount = 0, bearishCount = 0, totalVolatility = Finite 0,
                 validTimeframes = 0\<rparr> tfs;
          avgVolatility =
            (if validTimeframes s > 0
             then js_div (totalVolatility s) (Finite (real (validTimeframes s)))
             else Finite 0);
          sent =
            (if bullishCount s > bearishCount s + 2 then ''Bullish''
             else if bearishCount s > bullishCount s + 2 then ''Bearish''
             else if bullishCount s > bearishCount s then ''Slightly Bullish''
             else if bearishCount s > bullishCount s then ''Slightly Bearish''
             else ''Neutral'');
          rsk =
            (if js_gt avgVolatility 0.4 then ''High''
             else if js_lt avgVolatility 0.15 then ''Low''
             else ''Medium'');
          rec =
            (if sent = ''Bullish'' \<and> rsk \<noteq> ''High'' then ''Buy''
             else if sent = ''Bearish'' \<and> rsk \<noteq> ''High'' then ''Sell''
             else if rsk = ''High'' then ''Wait''
             else ''Hold'')
      in \<lparr>sentiment = sent, risk = rsk, recommendation = rec\<rparr>)"

subsection \<open>The timeframe table and getMarketDataByTimeframe\<close>

record TimeframeConfig =
  days :: nat
  interval :: string
  points :: nat

text \<open>
  \<^verbatim>\<open>TIMEFRAME_CONFIG\<close> is an object literal, and \<^verbatim>\<open>TIMEFRAME_CONFIG[timeframe]\<close> is a property
  read with an arbitrary string: it finds the nine own properties and, through the
  prototype chain, the members of \<^verbatim>\<open>Object.prototype\<close>. The latter are functions (an object
  for \<^verbatim>\<open>__proto__\<close>), hence truthy. Every other key reads as \<^verbatim>\<open>undefined\<close>.
\<close>

datatype property = Own TimeframeConfig | Inherited

definition TIMEFRAME_CONFIG_own :: "(string \<times> TimeframeConfig) list" where
  "TIMEFRAME_CONFIG_own =
     [(''15m'', \<lparr>days = 1, interval = ''minutely'', points = 96\<rparr>),
      (''30m'', \<lparr>days = 2, interval = ''minutely'', points = 96\<rparr>),
      (''1h'', \<lparr>days = 7, interval = ''hourly'', points = 168\<rparr>),
      (''12h'', \<lparr>days = 30, interval = ''daily'', points = 60\<rparr>),
      (''24h'', \<lparr>days = 30, interval = ''daily'', points = 30\<rparr>),
      (''7d'', \<lparr>days = 180, interval = ''daily'', points = 26\<rparr>),
      (''30d'', \<lparr>days = 365, interval = ''daily'', points = 12\<rparr>),
      (''6M'', \<lparr>days = 1095, interval = ''daily'', points = 6\<rparr>),
      (''1Y'', \<lparr>days = 1825, interval = ''daily'', points = 5\<rparr>)]"

definition Object_prototype :: "string list" where
  "Object_prototype =
     [''constructor'', ''hasOwnProperty'', ''isPrototypeOf'', ''propertyIsEnumerable'',
      ''toLocaleString'', ''toString'', ''valueOf'', ''__proto__'', ''__defineGetter__'',
      ''__defineSetter__'', ''__lookupGetter__'', ''__lookupSetter__'']"

definition TIMEFRAME_CONFIG :: "string \<Rightarrow> property option" where
  "TIMEFRAME_CONFIG key =
     (case map_of TIMEFRAME_CONFIG_own key of
        Some config \<Rightarrow> Some (Own config)
      | None \<Rightarrow> if key \<in> set Object_prototype then Some Inherited else None)"

datatype js_error = Error string

text \<open>
  The body of \<^verbatim>\<open>getMarketDataByTimeframe\<close> after the guard (the two market-data services
  and the generated series, inside \<^verbatim>\<open>try { ... } catch (error) { throw new Error(...) }\<close>)
  uses the network, the clock and \<^verbatim>\<open>Math.random\<close>. It is a parameter: given the coin, the
  timeframe and the value read from the table, it returns candles or throws.
\<close>

type_synonym acquisition = "string \<Rightarrow> string \<Rightarrow> property \<Rightarrow> js_error + CoinData list"

definition getMarketDataByTimeframe ::
    "acquisition \<Rightarrow> string \<Rightarrow> string \<Rightarrow> js_error + CoinData list" where
  "getMarketDataByTimeframe acquire coinId tf =
     (case TIMEFRAME_CONFIG tf of
        None \<Rightarrow> Inl (Error (''Timeframe '' @ tf @ '' tidak didukung''))
      | Some config \<Rightarrow> acquire coinId tf config)"

subsection \<open>getMultiTimeframeAnalysis\<close>

text \<open>
  What one call reads from outside: the coin lookup (\<^verbatim>\<open>getCoinId\<close>, which may throw), the
  data acquisition above, the clock, \<^verbatim>\<open>String.prototype.toUpperCase\<close>, and the narrative of
  \<^verbatim>\<open>generateTimeframeAnalysis\<close>, whose text formats numbers with \<^verbatim>\<open>toFixed\<close>. The narrative
  is allowed to throw: it stands for any exception raised in the \<^verbatim>\<open>try\<close> block once the data
  has arrived.
\<close>

record Env =
  getCoinId :: "string \<Rightarrow> js_error + string"
  acquisition :: acquisition
  generateTimeframeAnalysis ::
    "CoinData list \<Rightarrow> string \<Rightarrow> string \<Rightarrow> jsnum \<Rightarrow> jsnum \<Rightarrow> js_error + string"
  now :: string
  toUpperCase :: "string \<Rightarrow> string"

definition timeframe_codes :: "string list" where
  "timeframe_codes = [''15m'', ''30m'', ''1h'', ''12h'', ''24h'', ''7d'', ''30d'', ''6M'', ''1Y'']"

definition timeframeLabels :: "string \<Rightarrow> string option" where
  "timeframeLabels =
     map_of [(''15m'', ''15 Menit''), (''30m'', ''30 Menit''), (''1h'', ''1 Jam''),
             (''12h'', ''12 Jam''), (''24h'', ''24 Jam''), (''7d'', ''7 Hari''),
             (''30d'', ''30 Hari''), (''6M'', ''6 Bulan''), (''1Y'', ''1 Tahun'')]"

text \<open>The entry pushed in the \<^verbatim>\<open>catch\<close> branch.\<close>

definition fallback_entry :: "string \<Rightarrow> TimeframeData" where
  "fallback_entry tf =
     \<lparr>timeframe = tf,
      duration = timeframeLabels tf,
      data = [],
      analysis = ''Analisis untuk timeframe '' @ tf @ '' tidak tersedia saat ini.'',
      trend = ''Unknown'',
      volatility = Finite 0,
      priceChange = Finite 0,
      volume24h = None\<rparr>"

text \<open>
  The \<^verbatim>\<open>try\<close> block of one iteration: the entry it pushes, or the exception that leaves it.
\<close>

definition try_timeframe :: "Env \<Rightarrow> string \<Rightarrow> string \<Rightarrow> js_error + TimeframeData" where
  "try_timeframe env coinId tf =
     (case getMarketDataByTimeframe (acquisition env) coinId tf of
        Inl error \<Rightarrow> Inl error
      | Inr cs \<Rightarrow>
          (let dataWithIndicators = applyIndicators cs;
               trd = detectTrend dataWithIndicators;
               vol = calculateVolatility cs;
               chg = calculatePriceChange cs
           in case generateTimeframeAnalysis env dataWithIndicators tf trd vol chg of
                Inl error \<Rightarrow> Inl error
              | Inr timeframeAnalysis \<Rightarrow>
                  Inr \<lparr>timeframe = tf,
                       duration = timeframeLabels tf,
                       data = dataWithIndicators,
                       analysis = timeframeAnalysis,
                       trend = trd,
                       volatility = vol,
                       priceChange = chg,
                       volume24h = None\<rparr>))"

text \<open>One iteration of \<^verbatim>\<open>for (const timeframe of timeframes) { try { ... } catch { ... } }\<close>.\<close>

definition analyze_timeframe :: "Env \<Rightarrow> string \<Rightarrow> TimeframeData list \<Rightarrow> string \<Rightarrow> TimeframeData list" where
  "analyze_timeframe env coinId acc tf =
     (case try_timeframe env coinId tf of
        Inr entry \<Rightarrow> acc @ [entry]
      | Inl error \<Rightarrow> acc @ [fallback_entry tf])"

definition getMultiTimeframeAnalysis :: "Env \<Rightarrow> string \<Rightarrow> js_error + MultiTimeframeAnalysis" where
  "getMultiTimeframeAnalysis env symb =
     (case getCoinId env symb of
        Inl error \<Rightarrow> Inl error
      | Inr coinId \<Rightarrow>
          (let tfs = foldl (analyze_timeframe env coinId) [] timeframe_codes;
               overall = generateOverallAnalysis tfs
           in Inr \<lparr>symbol = toUpperCase env symb,
                   analysisTimestamp = now env,
                   timeframes = tfs,
                   overallSentiment = sentiment overall,
                   riskLevel = risk overall,
                   tradingRecommendation = recommendation overall\<rparr>))"

section \<open>Example inputs\<close>

text \<open>
  A raw candle as the data acquisition returns it: no indicator field is set. \<open>series\<close>
  builds such candles from a list of closes; the timestamp of the candle at index \<open>i\<close>
  is \<open>i + 1\<close> strokes.
\<close>

definition candle :: "string \<Rightarrow> number \<Rightarrow> CoinData" where
  "candle ts c =
     \<lparr>timestamp = ts, open_price = c, high = c, low = c, close = c, volume = None,
      ema_20 = None, rsi_14 = None, macd = None, macd_signal = None,
      bb_upper = None, bb_lower = None, obv = None\<rparr>"

definition series :: "number list \<Rightarrow> CoinData list" where
  "series closes = map (\<lambda>i. candle (replicate (Suc i) CHR ''|'') (closes ! i)) [0..<length closes]"

text \<open>Fifteen closes falling by one at every step: 15, 14, ..., 1.\<close>

definition falling15 :: "number list" where
  "falling15 = [15, 14, 13, 12, 11, 10, 9, 8, 7, 6, 5, 4, 3, 2, 1]"

text \<open>
  Twenty-five closes: eleven at 1, nine at 21, then 20.5, 5.75 and three at 10.5.
\<close>

definition closes25 :: "number list" where
  "closes25 =
     [1, 1, 1, 1, 1, 1, 1, 1, 1, 1, 1,
      21, 21, 21, 21, 21, 21, 21, 21, 21,
      20.5, 5.75, 10.5, 10.5, 10.5]"

text \<open>
  A timeframe report with a given trend, volatility and data. \<open>seven_up\<close> holds nine
  reports with data, seven of them \<^verbatim>\<open>"Uptrend"\<close> and two \<^verbatim>\<open>"Sideways"\<close>.
\<close>

definition report :: "string \<Rightarrow> string \<Rightarrow> number \<Rightarrow> CoinData list \<Rightarrow> TimeframeData" where
  "report tf trd vol cs =
     \<lparr>timeframe = tf, duration = timeframeLabels tf, data = cs, analysis = [],
      trend = trd, volatility = Finite vol, priceChange = Finite 0, volume24h = None\<rparr>"

definition seven_up :: "TimeframeData list" where
  "seven_up =
     [report ''15m'' ''Uptrend'' 0.3 (series [1, 2, 2]),
      report ''30m'' ''Uptrend'' 0.3 (series [1, 2, 2]),
      report ''1h'' ''Sideways'' 0.3 (series [1, 2, 2]),
      report ''12h'' ''Uptrend'' 0.3 (series [1, 2, 2]),
      report ''24h'' ''Uptrend'' 0.3 (series [1, 2, 2]),
      report ''7d'' ''Uptrend'' 0.3 (series [1, 2, 2]),
      report ''30d'' ''Sideways'' 0.3 (series [1, 2, 2]),
      report ''6M'' ''Uptrend'' 0.3 (series [1, 2, 2]),
      report ''1Y'' ''Uptrend'' 0.3 (series [1, 2, 2])]"

text \<open>
  An environment in which the coin is found, the data acquisition throws for \<^verbatim>\<open>1h\<close> and
  returns three candles for every other timeframe, and the narrative throws for \<^verbatim>\<open>7d\<close>.
\<close>

definition env_1h_fails :: Env where
  "env_1h_fails =
     \<lparr>getCoinId = (\<lambda>symb. Inr ''bitcoin''),
      acquisition = (\<lambda>coinId tf config.
        if tf = ''1h'' then Inl (Error ''Gagal mengambil data harga untuk timeframe 1h'')
        else Inr (series [1, 2, 2])),
      generateTimeframeAnalysis = (\<lambda>cs tf trd vol chg.
        if tf = ''7d'' then Inl (Error ''TypeError'') else Inr (''Analisis '' @ tf @ '': '')),
      now = ''2024-01-01T00:00:00.000Z'',
      toUpperCase = (\<lambda>symb. ''BTC'')\<rparr>"

text \<open>
  An environment in which the coin lookup throws, as \<^verbatim>\<open>getCoinId\<close> does for a symbol that
  neither its table nor the two coin lists know.
\<close>

definition env_unknown_coin :: Env where
  "env_unknown_coin =
     \<lparr>getCoinId = (\<lambda>symb. Inl (Error (''Gagal mengambil coin ID: '' @ symb))),
      acquisition = (\<lambda>coinId tf config. Inr (series [1, 2, 2])),
      generateTimeframeAnalysis = (\<lambda>cs tf trd vol chg. Inr (''Analisis '' @ tf @ '': '')),
      now = ''2024-01-01T00:00:00.000Z'',
      toUpperCase = (\<lambda>symb. ''NOSUCHCOIN'')\<rparr>"

section \<open>Verification\<close>




lemma js_get_js_set: "js_get (js_set arr i v) j = (if j = i then Some v else js_get arr j)"
  by (auto simp: js_get_def js_set_def nth_append nth_list_update)

lemma js_get_Nil: "js_get [] j = None"
  by (simp add: js_get_def)

lemma js_get_fold_set:
  "js_get (foldl (\<lambda>arr i. js_set arr i (g i)) arr xs) j =
     (if j \<in> set xs then Some (g j) else js_get arr j)"
  by (induction xs arbitrary: arr) (auto simp: js_get_js_set)

lemma foldl_add_sum_list: "foldl (\<lambda>sum x. sum + x) a xs = a + sum_list (xs :: real list)"
  by (induction xs arbitrary: a) simp_all

lemma ema_loop_below:
  "j < i \<Longrightarrow> js_get (ema_loop xs m i prev ema) j = js_get ema j"
proof (induction xs m i prev ema rule: ema_loop.induct)
  case (1 xs m i prev ema)
  show ?case
  proof (cases "i < length xs")
    case True
    with 1 show ?thesis
      by (subst ema_loop.simps) (simp add: Let_def js_get_js_set)
  next
    case False
    then show ?thesis by (subst ema_loop.simps) simp
  qed
qed

lemma ema_loop_at:
  assumes "i < length xs"
  shows "js_get (ema_loop xs m i prev ema) i = Some ((xs ! i - prev) * m + prev)"
proof -
  have "ema_loop xs m i prev ema =
          ema_loop xs m (Suc i) ((xs ! i - prev) * m + prev)
            (js_set ema i ((xs ! i - prev) * m + prev))"
    using assms by (subst ema_loop.simps) (simp add: Let_def)
  then show ?thesis
    by (simp add: ema_loop_below js_get_js_set)
qed

lemma ema_loop_above:
  "i < j \<Longrightarrow> j < length xs \<Longrightarrow>
     \<exists>p. js_get (ema_loop xs m i prev ema) (j - 1) = Some p
        \<and> js_get (ema_loop xs m i prev ema) j = Some ((xs ! j - p) * m + p)"
proof (induction xs m i prev ema rule: ema_loop.induct)
  case (1 xs m i prev ema)
  let ?e = "(xs ! i - prev) * m + prev"
  from 1 have i: "i < length xs" by simp
  have unfold: "ema_loop xs m i prev ema = ema_loop xs m (Suc i) ?e (js_set ema i ?e)"
    using i by (subst ema_loop.simps) (simp add: Let_def)
  show ?case
  proof (cases "j = Suc i")
    case True
    have "js_get (ema_loop xs m i prev ema) i = Some ?e"
      using i by (rule ema_loop_at)
    moreover have "js_get (ema_loop xs m (Suc i) ?e (js_set ema i ?e)) (Suc i)
                     = Some ((xs ! Suc i - ?e) * m + ?e)"
      using 1 True by (intro ema_loop_at) simp
    ultimately show ?thesis
      using True unfold by simp
  next
    case False
    with 1 have "Suc i < j" by simp
    from "1.IH" [OF i refl this "1.prems"(2)] show ?thesis
      using unfold by simp
  qed
qed

lemma calculateEMA_below:
  "j < period - 1 \<Longrightarrow> js_get (calculateEMA xs period) j = None"
  by (simp add: calculateEMA_def Let_def ema_loop_below js_get_js_set js_get_Nil)

lemma calculateEMA_seed:
  "0 < period \<Longrightarrow>
     js_get (calculateEMA xs period) (period - 1) = Some (sum_list (take period xs) / real period)"
  by (simp add: calculateEMA_def Let_def ema_loop_below js_get_js_set foldl_add_sum_list)

lemma calculateEMA_step:
  assumes "0 < period" "period \<le> i" "i < length xs"
  shows "\<exists>p. js_get (calculateEMA xs period) (i - 1) = Some p
           \<and> js_get (calculateEMA xs period) i = Some ((xs ! i - p) * (2 / (real period + 1)) + p)"
proof (cases "i = period")
  case True
  have "js_get (calculateEMA xs period) (period - 1) = Some (sum_list (take period xs) / real period)"
    using assms(1) by (rule calculateEMA_seed)
  moreover have "js_get (calculateEMA xs period) period =
      Some ((xs ! period - sum_list (take period xs) / real period) * (2 / (real period + 1))
            + sum_list (take period xs) / real period)"
    using assms True by (simp add: calculateEMA_def Let_def ema_loop_at foldl_add_sum_list)
  ultimately show ?thesis using True by simp
next
  case False
  with assms have "period < i" by simp
  then show ?thesis
    unfolding calculateEMA_def Let_def using assms(3) by (rule ema_loop_above)
qed

text \<open>
  Claim C7. For a positive period and at least \<open>period\<close> closes, \<^verbatim>\<open>calculateEMA\<close> stores the
  arithmetic mean of the first \<open>period\<close> closes at index \<open>period - 1\<close>, leaves every earlier
  index a hole, and at every index \<open>i \<ge> period\<close> below the length stores
  \<open>(close[i] - EMA[i-1]) * (2 / (period + 1)) + EMA[i-1]\<close>. For the closes
  \<open>[10,10,10,10,10]\<close> and period 5 the value at index 4 is 10, and with a sixth close 20
  the value at index 5 is \<open>(20 - 10) * (2 / 6) + 10\<close>.
\<close>

theorem calculateEMA_seed_and_recurrence:
  assumes "0 < period" and "period \<le> length xs"
  shows "js_get (calculateEMA xs period) (period - 1) = Some (sum_list (take period xs) / real period)
       \<and> (\<forall>j < period - 1. js_get (calculateEMA xs period) j = None)
       \<and> (\<forall>i. period \<le> i \<and> i < length xs \<longrightarrow>
            (\<exists>p. js_get (calculateEMA xs period) (i - 1) = Some p
               \<and> js_get (calculateEMA xs period) i
                   = Some ((xs ! i - p) * (2 / (real period + 1)) + p)))
       \<and> js_get (calculateEMA [10, 10, 10, 10, 10] 5) 4 = Some 10
       \<and> js_get (calculateEMA [10, 10, 10, 10, 10, 20] 5) 5 = Some ((20 - 10) * (2 / 6) + 10)"
proof (intro conjI allI impI)
  show "js_get (calculateEMA xs period) (period - 1) = Some (sum_list (take period xs) / real period)"
    using assms(1) by (rule calculateEMA_seed)
next
  fix j assume "j < period - 1"
  then show "js_get (calculateEMA xs period) j = None"
    by (rule calculateEMA_below)
next
  fix i assume "period \<le> i \<and> i < length xs"
  then show "\<exists>p. js_get (calculateEMA xs period) (i - 1) = Some p
               \<and> js_get (calculateEMA xs period) i
                   = Some ((xs ! i - p) * (2 / (real period + 1)) + p)"
    using assms(1) by (intro calculateEMA_step) simp_all
next
  show "js_get (calculateEMA [10, 10, 10, 10, 10] 5) 4 = Some 10"
    using calculateEMA_seed [of 5 "[10, 10, 10, 10, 10]"] by simp
next
  have "js_get (calculateEMA [10, 10, 10, 10, 10, 20] 5) 4 = Some 10"
    using calculateEMA_seed [of 5 "[10, 10, 10, 10, 10, 20]"] by simp
  moreover have "\<exists>p. js_get (calculateEMA [10, 10, 10, 10, 10, 20] 5) (5 - 1) = Some p
      \<and> js_get (calculateEMA [10, 10, 10, 10, 10, 20] 5) 5
          = Some (([10, 10, 10, 10, 10, 20] ! 5 - p) * (2 / (real 5 + 1)) + p)"
    by (rule calculateEMA_step) simp_all
  ultimately show "js_get (calculateEMA [10, 10, 10, 10, 10, 20] 5) 5
      = Some ((20 - 10) * (2 / 6) + 10)"
    by auto
qed

theorem calculateEMA_seed_and_recurrence_witness:
  "(0::nat) < 3 \<and> 3 \<le> length [1, 2, 3, 8 :: real]
   \<and> js_get (calculateEMA [1, 2, 3, 8] 3) 0 = None
   \<and> js_get (calculateEMA [1, 2, 3, 8] 3) 1 = None
   \<and> js_get (calculateEMA [1, 2, 3, 8] 3) 2 = Some 2
   \<and> js_get (calculateEMA [1, 2, 3, 8] 3) 3 = Some 5"
proof -
  have h: "(0::nat) < 3" "3 \<le> length [1, 2, 3, 8 :: real]" by simp_all
  note inst = calculateEMA_seed_and_recurrence [OF h]
  from inst have seed: "js_get (calculateEMA [1, 2, 3, 8] 3) 2 = Some 2"
    by simp
  from inst have holes: "\<forall>j < 3 - 1. js_get (calculateEMA [1, 2, 3, 8] 3) j = None"
    by blast
  from inst have "\<forall>i. 3 \<le> i \<and> i < length [1, 2, 3, 8 :: real] \<longrightarrow>
            (\<exists>p. js_get (calculateEMA [1, 2, 3, 8] 3) (i - 1) = Some p
               \<and> js_get (calculateEMA [1, 2, 3, 8] 3) i
                   = Some (([1, 2, 3, 8] ! i - p) * (2 / (real 3 + 1)) + p))"
    by blast
  from this [THEN spec, of 3]
  have "\<exists>p. js_get (calculateEMA [1, 2, 3, 8] 3) 2 = Some p
               \<and> js_get (calculateEMA [1, 2, 3, 8] 3) 3 = Some ((8 - p) / 2 + p)"
    by simp
  with seed have last: "js_get (calculateEMA [1, 2, 3, 8] 3) 3 = Some 5" by auto
  from holes have "js_get (calculateEMA [1, 2, 3, 8] 3) 0 = None"
    and "js_get (calculateEMA [1, 2, 3, 8] 3) 1 = None" by simp_all
  with h seed last show ?thesis by simp
qed


subsection \<open>applyIndicators\<close>

lemma bb_fold_outside:
  "j \<notin> set xs \<Longrightarrow>
     js_get (upperBand (foldl (bb_step ys period stdDev) bb xs)) j = js_get (upperBand bb) j \<and>
     js_get (lowerBand (foldl (bb_step ys period stdDev) bb xs)) j = js_get (lowerBand bb) j"
  by (induction xs arbitrary: bb) (auto simp: bb_step_def Let_def js_get_js_set)

lemma calculateBollingerBands_below:
  assumes "j < period - 1"
  shows "js_get (upperBand (calculateBollingerBands ys period stdDev)) j = None"
    and "js_get (lowerBand (calculateBollingerBands ys period stdDev)) j = None"
  using assms bb_fold_outside [of j "[period - 1..<length ys]" ys period stdDev
      "\<lparr>sma = [], upperBand = [], lowerBand = []\<rparr>"]
  by (simp_all add: calculateBollingerBands_def js_get_Nil)

lemma calculateRSI_get:
  "js_get (calculateRSI xs period) j =
     (if period - 1 \<le> j \<and> j < length (gains_of xs)
      then Some (rsi_value (gains_of xs) (losses_of xs) period j) else None)"
  by (simp add: calculateRSI_def Let_def js_get_fold_set js_get_Nil)

lemma length_applyIndicators: "length (applyIndicators cs) = length cs"
  by (simp add: applyIndicators_def Let_def)

lemma applyIndicators_nth:
  "i < length cs \<Longrightarrow>
     applyIndicators cs ! i =
       annotate (calculateEMA (map close cs) 20) (calculateRSI (map close cs) 14)
         (calculateBollingerBands (map close cs) 20 2) i (cs ! i)"
  by (simp add: applyIndicators_def Let_def)

lemma length_series: "length (series closes) = length closes"
  by (simp add: series_def)

lemma close_series: "map close (series closes) = closes"
  by (simp add: series_def candle_def map_nth o_def)

text \<open>
  Claim C9. Every output candle of \<^verbatim>\<open>applyIndicators\<close> has the timestamp, open, high, low,
  close and volume of the input candle at the same index, and the output has the length
  of the input.
\<close>

theorem applyIndicators_preserves_ohlcv:
  assumes "i < length cs"
  shows "length (applyIndicators cs) = length cs
       \<and> timestamp (applyIndicators cs ! i) = timestamp (cs ! i)
       \<and> open_price (applyIndicators cs ! i) = open_price (cs ! i)
       \<and> high (applyIndicators cs ! i) = high (cs ! i)
       \<and> low (applyIndicators cs ! i) = low (cs ! i)
       \<and> close (applyIndicators cs ! i) = close (cs ! i)
       \<and> volume (applyIndicators cs ! i) = volume (cs ! i)"
  using assms by (simp add: length_applyIndicators applyIndicators_nth annotate_def)

theorem applyIndicators_preserves_ohlcv_witness:
  "(0::nat) < length [candle ''t0'' 7]
   \<and> length (applyIndicators [candle ''t0'' 7]) = 1
   \<and> timestamp (applyIndicators [candle ''t0'' 7] ! 0) = ''t0''
   \<and> open_price (applyIndicators [candle ''t0'' 7] ! 0) = 7
   \<and> high (applyIndicators [candle ''t0'' 7] ! 0) = 7
   \<and> low (applyIndicators [candle ''t0'' 7] ! 0) = 7
   \<and> close (applyIndicators [candle ''t0'' 7] ! 0) = 7
   \<and> volume (applyIndicators [candle ''t0'' 7] ! 0) = None"
proof -
  have h: "(0::nat) < length [candle ''t0'' 7]" by simp
  from applyIndicators_preserves_ohlcv [OF h] show ?thesis
    by (simp add: candle_def)
qed

text \<open>
  Claim C1, as the code has it. At an index below 19 \<^verbatim>\<open>applyIndicators\<close> stores the number 0 in
  \<open>ema_20\<close>, \<open>bb_upper\<close> and \<open>bb_lower\<close>, and at an index below 14 it stores the number 50 in
  \<open>rsi_14\<close>: the fields are never left undefined, and the stored defaults are ordinary
  numbers.
\<close>

theorem applyIndicators_defaults:
  assumes "i < length cs"
  shows "(i < 19 \<longrightarrow> ema_20 (applyIndicators cs ! i) = Some 0
                   \<and> bb_upper (applyIndicators cs ! i) = Some 0
                   \<and> bb_lower (applyIndicators cs ! i) = Some 0)
       \<and> (i < 14 \<longrightarrow> rsi_14 (applyIndicators cs ! i) = Some 50)"
  using assms
  by (auto simp: applyIndicators_nth annotate_def calculateEMA_below
      calculateBollingerBands_below calculateRSI_get js_or_def)

theorem applyIndicators_defaults_witness:
  "(3::nat) < length (series falling15)
   \<and> ema_20 (applyIndicators (series falling15) ! 3) = Some 0
   \<and> bb_upper (applyIndicators (series falling15) ! 3) = Some 0
   \<and> bb_lower (applyIndicators (series falling15) ! 3) = Some 0
   \<and> rsi_14 (applyIndicators (series falling15) ! 3) = Some 50"
proof -
  have h: "(3::nat) < length (series falling15)"
    by (simp add: length_series falling15_def)
  from applyIndicators_defaults [OF h] show ?thesis
    using h by simp
qed

text \<open>
  The specification asks for a marker distinct from a real zero at such an index. On a
  single candle the code stores the numbers 0 and 50 themselves.
\<close>

theorem applyIndicators_marker_counterexample:
  "ema_20 (applyIndicators [candle ''t0'' 7] ! 0) = Some 0
   \<and> bb_upper (applyIndicators [candle ''t0'' 7] ! 0) = Some 0
   \<and> bb_lower (applyIndicators [candle ''t0'' 7] ! 0) = Some 0
   \<and> rsi_14 (applyIndicators [candle ''t0'' 7] ! 0) = Some 50"
  by (simp add: applyIndicators_nth annotate_def calculateEMA_below
      calculateBollingerBands_below js_or_def)


subsection \<open>calculateRSI\<close>

lemma length_gains_of: "length (gains_of xs) = length xs - 1"
  by (simp add: gains_of_def)

lemma length_losses_of: "length (losses_of xs) = length xs - 1"
  by (simp add: losses_of_def)

lemma gains_of_nth:
  "Suc k < length xs \<Longrightarrow>
     gains_of xs ! k = (if xs ! Suc k - xs ! k > 0 then xs ! Suc k - xs ! k else 0)"
  by (simp add: gains_of_def Let_def)

lemma losses_of_nth:
  "Suc k < length xs \<Longrightarrow>
     losses_of xs ! k = (if xs ! Suc k - xs ! k < 0 then \<bar>xs ! Suc k - xs ! k\<bar> else 0)"
  by (simp add: losses_of_def Let_def)

lemma length_slice: "b \<le> length ys \<Longrightarrow> length (slice ys a b) = b - a"
  by (simp add: slice_def)

lemma slice_nth: "a + k < b \<Longrightarrow> b \<le> length ys \<Longrightarrow> slice ys a b ! k = ys ! (a + k)"
  by (simp add: slice_def)

lemma sum_list_all_zero:
  fixes ys :: "real list"
  assumes "\<And>k. k < length ys \<Longrightarrow> ys ! k = 0"
  shows "sum_list ys = 0"
  using assms by (simp add: sum_list_sum_nth)

lemma sum_list_all_pos:
  fixes ys :: "real list"
  assumes "ys \<noteq> []" and "\<And>k. k < length ys \<Longrightarrow> 0 < ys ! k"
  shows "0 < sum_list ys"
proof -
  have "0 < (\<Sum>k = 0..<length ys. ys ! k)"
    using assms by (intro sum_pos) simp_all
  then show ?thesis by (simp add: sum_list_sum_nth)
qed

lemma rsi_value_no_loss:
  "sum_list (slice losses (Suc i - period) (Suc i)) = 0 \<Longrightarrow> rsi_value gains losses period i = 100"
  by (simp add: rsi_value_def)

lemma rsi_value_rising:
  assumes "period \<le> Suc i" and "Suc i < length xs"
    and rising: "\<And>k. Suc i - period \<le> k \<Longrightarrow> k \<le> i \<Longrightarrow> xs ! k < xs ! Suc k"
  shows "rsi_value (gains_of xs) (losses_of xs) period i = 100"
proof (rule rsi_value_no_loss, rule sum_list_all_zero)
  fix k assume "k < length (slice (losses_of xs) (Suc i - period) (Suc i))"
  with assms have k: "Suc i - period + k < Suc i"
    by (simp add: length_slice length_losses_of)
  then have "slice (losses_of xs) (Suc i - period) (Suc i) ! k = losses_of xs ! (Suc i - period + k)"
    using assms by (intro slice_nth) (simp_all add: length_losses_of)
  also have "\<dots> = 0"
    using k assms(2) rising [of "Suc i - period + k"] by (simp add: losses_of_nth)
  finally show "slice (losses_of xs) (Suc i - period) (Suc i) ! k = 0" .
qed

lemma rsi_value_falling:
  assumes "0 < period" and "period \<le> Suc i" and "Suc i < length xs"
    and falling: "\<And>k. Suc i - period \<le> k \<Longrightarrow> k \<le> i \<Longrightarrow> xs ! Suc k < xs ! k"
  shows "rsi_value (gains_of xs) (losses_of xs) period i = 0"
proof -
  let ?a = "Suc i - period"
  have len: "length (slice (gains_of xs) ?a (Suc i)) = period"
    "length (slice (losses_of xs) ?a (Suc i)) = period"
    using assms by (simp_all add: length_slice length_gains_of length_losses_of)
  have gain: "sum_list (slice (gains_of xs) ?a (Suc i)) = 0"
  proof (rule sum_list_all_zero)
    fix k assume "k < length (slice (gains_of xs) ?a (Suc i))"
    with len have k: "?a + k < Suc i" using assms by simp
    then have "slice (gains_of xs) ?a (Suc i) ! k = gains_of xs ! (?a + k)"
      using assms by (intro slice_nth) (simp_all add: length_gains_of)
    also have "\<dots> = 0"
      using k assms(3) falling [of "?a + k"] by (simp add: gains_of_nth)
    finally show "slice (gains_of xs) ?a (Suc i) ! k = 0" .
  qed
  have loss: "0 < sum_list (slice (losses_of xs) ?a (Suc i))"
  proof (rule sum_list_all_pos)
    show "slice (losses_of xs) ?a (Suc i) \<noteq> []"
      using len assms(1) by auto
  next
    fix k assume "k < length (slice (losses_of xs) ?a (Suc i))"
    with len have k: "?a + k < Suc i" using assms by simp
    then have "slice (losses_of xs) ?a (Suc i) ! k = losses_of xs ! (?a + k)"
      using assms by (intro slice_nth) (simp_all add: length_losses_of)
    moreover have "0 < losses_of xs ! (?a + k)"
      using k assms(3) falling [of "?a + k"] by (simp add: losses_of_nth)
    ultimately show "0 < slice (losses_of xs) ?a (Suc i) ! k" by simp
  qed
  from gain loss assms(1) show ?thesis
    by (simp add: rsi_value_def Let_def)
qed

text \<open>
  What \<^verbatim>\<open>calculateRSI\<close> itself returns: 100 when the mean loss of the window is zero, in
  particular on a strictly rising window, and 0 on a strictly falling window.
\<close>

lemma calculateRSI_no_loss:
  assumes "period - 1 \<le> i" and "i < length (gains_of xs)"
    and "sum_list (slice (losses_of xs) (Suc i - period) (Suc i)) / real period = 0"
  shows "js_get (calculateRSI xs period) i = Some 100"
  using assms by (simp add: calculateRSI_get rsi_value_def)

lemma calculateRSI_rising:
  assumes "0 < period" and "period \<le> Suc i" and "Suc i < length xs"
    and "\<And>k. Suc i - period \<le> k \<Longrightarrow> k \<le> i \<Longrightarrow> xs ! k < xs ! Suc k"
  shows "js_get (calculateRSI xs period) i = Some 100"
proof -
  from assms have "period - 1 \<le> i" and "i < length (gains_of xs)"
    by (simp_all add: length_gains_of)
  with assms show ?thesis
    by (simp add: calculateRSI_get rsi_value_rising)
qed

lemma calculateRSI_falling:
  assumes "0 < period" and "period \<le> Suc i" and "Suc i < length xs"
    and "\<And>k. Suc i - period \<le> k \<Longrightarrow> k \<le> i \<Longrightarrow> xs ! Suc k < xs ! k"
  shows "js_get (calculateRSI xs period) i = Some 0"
proof -
  from assms have "period - 1 \<le> i" and "i < length (gains_of xs)"
    by (simp_all add: length_gains_of)
  with assms show ?thesis
    by (simp add: calculateRSI_get rsi_value_falling)
qed

lemma applyIndicators_rsi_14:
  assumes "Suc i < length cs"
  shows "rsi_14 (applyIndicators cs ! Suc i) = Some (js_or (js_get (calculateRSI (map close cs) 14) i) 50)"
  using assms by (simp add: applyIndicators_nth annotate_def)

text \<open>On a rising window the annotated field carries the 100 of \<^verbatim>\<open>calculateRSI\<close>.\<close>

lemma applyIndicators_rsi_rising:
  assumes "13 \<le> i" and "Suc i < length cs"
    and "\<And>k. i - 13 \<le> k \<Longrightarrow> k \<le> i \<Longrightarrow> close (cs ! k) < close (cs ! Suc k)"
  shows "rsi_14 (applyIndicators cs ! Suc i) = Some 100"
proof -
  have "js_get (calculateRSI (map close cs) 14) i = Some 100"
    using assms by (intro calculateRSI_rising) simp_all
  with assms(2) show ?thesis
    by (simp add: applyIndicators_rsi_14 js_or_def)
qed

lemma falling15_nth: "k < 15 \<Longrightarrow> falling15 ! k = 15 - real k"
proof -
  have "falling15 = map (\<lambda>k. 15 - real k) [0..<15]"
    by (simp add: falling15_def upt_rec)
  moreover assume "k < 15"
  then have "map (\<lambda>k. 15 - real k) [0..<15] ! k = 15 - real (0 + k)"
    by (intro nth_map_upt) simp
  ultimately show ?thesis by simp
qed

text \<open>
  Claim C4, at fifteen strictly falling closes. \<^verbatim>\<open>calculateRSI\<close> returns 0 for the full
  window ending at the last close, and the \<open>rsi_14\<close> field of the last annotated candle
  is 50: \<^verbatim>\<open>rsi14[index - 1] || 50\<close> takes the 0 for a missing value.
\<close>

theorem applyIndicators_rsi_zero_becomes_50:
  "js_get (calculateRSI (map close (series falling15)) 14) 13 = Some 0
   \<and> rsi_14 (applyIndicators (series falling15) ! 14) = Some 50"
proof -
  have len: "length falling15 = 15" by (simp add: falling15_def)
  have rsi: "js_get (calculateRSI falling15 14) 13 = Some 0"
  proof (rule calculateRSI_falling)
    fix k :: nat assume "k \<le> 13"
    then show "falling15 ! Suc k < falling15 ! k"
      by (simp add: falling15_nth)
  qed (simp_all add: len)
  have "rsi_14 (applyIndicators (series falling15) ! Suc 13)
          = Some (js_or (js_get (calculateRSI (map close (series falling15)) 14) 13) 50)"
    by (rule applyIndicators_rsi_14) (simp add: length_series len)
  with rsi show ?thesis
    by (simp add: close_series js_or_def)
qed


subsection \<open>The classifier\<close>

lemma applyIndicators_ema_20:
  assumes "i < length cs"
  shows "ema_20 (applyIndicators cs ! i) = Some (js_or (js_get (calculateEMA (map close cs) 20) i) 0)"
  using assms by (simp add: applyIndicators_nth annotate_def)

lemma close_series_nth: "i < length closes \<Longrightarrow> close (series closes ! i) = closes ! i"
  by (simp add: series_def candle_def)

lemma series_122:
  "length (series [1, 2, 2]) = 3"
  "close (series [1, 2, 2] ! 0) = 1"
  "close (series [1, 2, 2] ! Suc 0) = 2"
  "close (series [1, 2, 2] ! 2) = 2"
  "close (series [1, 2, 2] ! Suc (Suc 0)) = 2"
  by (simp_all add: length_series close_series_nth)

lemma js_log_pos: "0 < r \<Longrightarrow> js_log (Finite r) = Finite (ln r)"
  by simp

lemma foldl_js_add_Finite:
  "foldl (\<lambda>sum r. js_add sum r) (Finite a) (map Finite rs) = Finite (a + sum_list rs)"
  by (induction rs arbitrary: a) simp_all

lemma foldl_js_square_Finite:
  "foldl (\<lambda>sum r. js_add sum (js_square (js_sub r (Finite m)))) (Finite a) (map Finite rs)
     = Finite (a + sum_list (map (\<lambda>r. (r - m)\<^sup>2) rs))"
  by (induction rs arbitrary: a) (simp_all add: js_sub_def)

text \<open>
  From two candles on, \<^verbatim>\<open>calculatePriceChange\<close> returns the relative change of the close
  in percent when the first close is not zero, and \<^verbatim>\<open>calculateVolatility\<close> returns the
  standard deviation of the log returns times \<open>sqrt 252\<close> when every ratio of consecutive
  closes is positive.
\<close>

lemma calculatePriceChange_finite:
  assumes "2 \<le> length cs" and "close (cs ! 0) \<noteq> 0"
  shows "calculatePriceChange cs
           = Finite ((close (cs ! (length cs - 1)) - close (cs ! 0)) / close (cs ! 0) * 100)"
  using assms by (simp add: calculatePriceChange_def Let_def)

lemma calculateVolatility_finite:
  assumes len: "2 \<le> length cs"
    and ratio: "\<And>i. Suc i < length cs \<Longrightarrow>
                 close (cs ! i) \<noteq> 0 \<and> 0 < close (cs ! Suc i) / close (cs ! i)"
  shows "calculateVolatility cs =
     (let rs = map (\<lambda>i. ln (close (cs ! Suc i) / close (cs ! i))) [0..<length cs - 1];
          n = real (length cs - 1);
          mean = sum_list rs / n
      in Finite (sqrt (sum_list (map (\<lambda>r. (r - mean)\<^sup>2) rs) / n) * sqrt 252))"
proof -
  let ?rs = "map (\<lambda>i. ln (close (cs ! Suc i) / close (cs ! i))) [0..<length cs - 1]"
  let ?n = "real (length cs - 1)"
  let ?mean = "sum_list ?rs / ?n"
  let ?sq = "sum_list (map (\<lambda>r. (r - ?mean)\<^sup>2) ?rs)"
  have returns: "map (\<lambda>index. js_log (js_div (Finite (close (cs ! Suc index)))
                                              (Finite (close (cs ! index)))))
                   [0..<length cs - 1] = map Finite ?rs"
  proof -
    have "js_log (js_div (Finite (close (cs ! Suc i))) (Finite (close (cs ! i))))
            = Finite (ln (close (cs ! Suc i) / close (cs ! i)))"
      if "i < length cs - 1" for i
    proof -
      from that have "Suc i < length cs" by simp
      from ratio [OF this] have nz: "close (cs ! i) \<noteq> 0"
        and pos: "0 < close (cs ! Suc i) / close (cs ! i)" by simp_all
      from nz have "js_div (Finite (close (cs ! Suc i))) (Finite (close (cs ! i)))
          = Finite (close (cs ! Suc i) / close (cs ! i))" by simp
      moreover from pos have "js_log (Finite (close (cs ! Suc i) / close (cs ! i)))
          = Finite (ln (close (cs ! Suc i) / close (cs ! i)))" by (rule js_log_pos)
      ultimately show ?thesis by simp
    qed
    then show ?thesis by simp
  qed
  have n: "?n \<noteq> 0" using len by simp
  have lenr: "real (length (map Finite ?rs)) = ?n" by simp
  have guard: "(length cs < 2) = False" using len by simp
  have "0 \<le> ?sq" by (intro sum_list_nonneg) auto
  then have nonneg: "\<not> ?sq / ?n < 0"
    by (simp add: not_less)
  have mean: "js_div (foldl (\<lambda>sum r. js_add sum r) (Finite 0) (map Finite ?rs)) (Finite ?n)
                = Finite ?mean"
    using n by (simp only: foldl_js_add_Finite js_div.simps) simp
  have variance: "js_div (foldl (\<lambda>sum r. js_add sum (js_square (js_sub r (Finite ?mean))))
                            (Finite 0) (map Finite ?rs)) (Finite ?n)
                = Finite (?sq / ?n)"
    using n by (simp only: foldl_js_square_Finite js_div.simps) simp
  have "calculateVolatility cs = js_mul (js_sqrt (Finite (?sq / ?n))) (Finite (sqrt 252))"
    by (simp only: calculateVolatility_def Let_def guard if_False returns lenr mean variance)
  also have "\<dots> = Finite (sqrt (?sq / ?n) * sqrt 252)"
    using nonneg by (simp only: js_sqrt.simps js_mul.simps if_False)
  finally show ?thesis by (simp add: Let_def)
qed

text \<open>
  Where a close is zero the results are not finite: two candles with closes 2, 0 give
  the volatility NaN, and a first close of 0 gives an infinite or undefined change.
\<close>

lemma calculateVolatility_2_0: "calculateVolatility (series [2, 0]) = NaN"
  by (simp add: calculateVolatility_def Let_def length_series close_series_nth js_sub_def)

lemma calculatePriceChange_first_zero:
  assumes "2 \<le> length cs" and "close (cs ! 0) = 0"
  shows "calculatePriceChange cs =
           (if close (cs ! (length cs - 1)) > 0 then PosInf
            else if close (cs ! (length cs - 1)) < 0 then NegInf else NaN)"
  using assms by (simp add: calculatePriceChange_def Let_def)

text \<open>
  In general: from two candles on, the volatility is NaN as soon as one close that is
  divided by is zero or one ratio of consecutive closes is zero or negative. The return
  of that step is then an infinity or NaN, the mean is no longer finite, and one squared
  deviation is NaN.
\<close>

lemma foldl_js_add_NaN: "foldl (\<lambda>sum r. js_add sum (f r)) NaN rs = NaN"
  by (induction rs) simp_all

lemma js_add_NaN_right: "js_add x NaN = NaN"
  by (cases x) simp_all

lemma foldl_js_add_has_NaN:
  "r \<in> set rs \<Longrightarrow> f r = NaN \<Longrightarrow> foldl (\<lambda>sum r. js_add sum (f r)) a rs = NaN"
  by (induction rs arbitrary: a) (auto simp: js_add_NaN_right foldl_js_add_NaN)

lemma foldl_js_add_class:
  "(foldl (\<lambda>sum r. js_add sum r) a rs = PosInf \<longrightarrow> a = PosInf \<or> PosInf \<in> set rs)
   \<and> (foldl (\<lambda>sum r. js_add sum r) a rs = NegInf \<longrightarrow> a = NegInf \<or> NegInf \<in> set rs)
   \<and> ((\<exists>v. foldl (\<lambda>sum r. js_add sum r) a rs = Finite v) \<longrightarrow>
        (\<exists>v. a = Finite v) \<and> (\<forall>r \<in> set rs. \<exists>v. r = Finite v))"
proof (induction rs arbitrary: a)
  case Nil
  then show ?case by simp
next
  case (Cons r rs)
  show ?case
    using Cons.IH [of "js_add a r"]
    by (cases a; cases r) auto
qed

lemma js_div_count:
  "0 < n \<Longrightarrow> js_div x (Finite n) = (case x of Finite a \<Rightarrow> Finite (a / n) | y \<Rightarrow> y)"
  by (cases x) simp_all

lemma js_log_nonpos: "r \<le> 0 \<Longrightarrow> \<nexists>v. js_log (Finite r) = Finite v"
  by auto

lemma return_not_finite:
  assumes "b = 0 \<or> a / b \<le> 0"
  shows "\<nexists>v. js_log (js_div (Finite a) (Finite b)) = Finite v"
proof (cases "b = 0")
  case True
  then show ?thesis by simp
next
  case False
  with assms have "a / b \<le> 0" by simp
  then have "\<nexists>v. js_log (Finite (a / b)) = Finite v" by (rule js_log_nonpos)
  moreover from False have "js_div (Finite a) (Finite b) = Finite (a / b)" by simp
  ultimately show ?thesis by simp
qed

lemma calculateVolatility_not_finite:
  assumes len: "2 \<le> length cs"
    and bad: "Suc i < length cs"
      "close (cs ! i) = 0 \<or> close (cs ! Suc i) / close (cs ! i) \<le> 0"
  shows "calculateVolatility cs = NaN"
proof -
  let ?ret = "\<lambda>index. js_log (js_div (Finite (close (cs ! Suc index))) (Finite (close (cs ! index))))"
  let ?rs = "map ?ret [0..<length cs - 1]"
  let ?n = "real (length ?rs)"
  let ?mean = "js_div (foldl (\<lambda>sum r. js_add sum r) (Finite 0) ?rs) (Finite ?n)"
  have n: "0 < ?n" using len by simp
  have in_rs: "?ret i \<in> set ?rs" using bad(1) by auto
  have not_fin: "\<nexists>v. ?ret i = Finite v"
    using bad(2) by (rule return_not_finite)
  have "\<exists>r \<in> set ?rs. js_square (js_sub r ?mean) = NaN"
  proof (cases "foldl (\<lambda>sum r. js_add sum r) (Finite 0) ?rs")
    case (Finite v)
    with foldl_js_add_class [of "Finite 0" ?rs] in_rs not_fin show ?thesis by blast
  next
    case PosInf
    with foldl_js_add_class [of "Finite 0" ?rs] have "PosInf \<in> set ?rs" by simp
    moreover have "?mean = PosInf"
      using js_div_count [OF n, of "foldl (\<lambda>sum r. js_add sum r) (Finite 0) ?rs"]
      by (simp only: PosInf jsnum.case)
    ultimately show ?thesis by (intro bexI [of _ PosInf]) (simp_all add: js_sub_def)
  next
    case NegInf
    with foldl_js_add_class [of "Finite 0" ?rs] have "NegInf \<in> set ?rs" by simp
    moreover have "?mean = NegInf"
      using js_div_count [OF n, of "foldl (\<lambda>sum r. js_add sum r) (Finite 0) ?rs"]
      by (simp only: NegInf jsnum.case)
    ultimately show ?thesis by (intro bexI [of _ NegInf]) (simp_all add: js_sub_def)
  next
    case NaN
    have "?mean = NaN"
      using js_div_count [OF n, of "foldl (\<lambda>sum r. js_add sum r) (Finite 0) ?rs"]
      by (simp only: NaN jsnum.case)
    with in_rs show ?thesis by (intro bexI [of _ "?ret i"]) (simp_all add: js_sub_def js_add_NaN_right)
  qed
  then obtain r where "r \<in> set ?rs" "js_square (js_sub r ?mean) = NaN" by blast
  then have "foldl (\<lambda>sum r. js_add sum (js_square (js_sub r ?mean))) (Finite 0) ?rs = NaN"
    by (rule foldl_js_add_has_NaN)
  moreover have guard: "(length cs < 2) = False" using len by simp
  ultimately show ?thesis
    by (simp only: calculateVolatility_def Let_def guard if_False js_div.simps js_sqrt.simps js_mul.simps)
qed

lemma calculateVolatility_122:
  "calculateVolatility (series [1, 2, 2]) = Finite (sqrt ((ln 2)\<^sup>2 / 4) * sqrt 252)"
proof -
  have "calculateVolatility (series [1, 2, 2]) =
     (let rs = map (\<lambda>i. ln (close (series [1, 2, 2] ! Suc i) / close (series [1, 2, 2] ! i)))
                 [0..<length (series [1, 2, 2]) - 1];
          n = real (length (series [1, 2, 2]) - 1);
          mean = sum_list rs / n
      in Finite (sqrt (sum_list (map (\<lambda>r. (r - mean)\<^sup>2) rs) / n) * sqrt 252))"
  proof (rule calculateVolatility_finite)
    fix i assume "Suc i < length (series [1, 2, 2])"
    then have "i = 0 \<or> i = Suc 0" by (auto simp: series_122)
    then show "close (series [1, 2, 2] ! i) \<noteq> 0
        \<and> 0 < close (series [1, 2, 2] ! Suc i) / close (series [1, 2, 2] ! i)"
      by (auto simp: series_122)
  qed (simp add: series_122)
  also have "\<dots> = Finite (sqrt (((ln 2 - ln 2 / 2)\<^sup>2 + (0 - ln 2 / 2)\<^sup>2) / 2) * sqrt 252)"
    by (simp add: Let_def series_122 upt_rec)
  also have "((ln 2 - ln 2 / 2)\<^sup>2 + (0 - ln 2 / 2)\<^sup>2) / 2 = (ln (2::real))\<^sup>2 / 4"
    by (simp add: power2_eq_square field_simps)
  finally show ?thesis .
qed

text \<open>
  Claim C2, as the code has it. Below five candles \<^verbatim>\<open>detectTrend\<close> returns
  \<^verbatim>\<open>"Insufficient data"\<close>. \<^verbatim>\<open>calculateVolatility\<close> and \<^verbatim>\<open>calculatePriceChange\<close> have a guard of
  their own, at two candles: below it both return 0. From two candles on they return the
  computed values: the change of the close from the first to the last candle in percent
  of the first close (when that is not zero), and the standard deviation of the log
  returns of consecutive closes times \<open>sqrt 252\<close> (when every ratio of consecutive closes
  is positive).
\<close>

theorem classifier_short_series:
  "(length cs < 5 \<longrightarrow> detectTrend cs = ''Insufficient data'')
   \<and> (length cs < 2 \<longrightarrow> calculateVolatility cs = Finite 0 \<and> calculatePriceChange cs = Finite 0)
   \<and> (2 \<le> length cs \<and> close (cs ! 0) \<noteq> 0 \<longrightarrow>
        calculatePriceChange cs
          = Finite ((close (cs ! (length cs - 1)) - close (cs ! 0)) / close (cs ! 0) * 100))
   \<and> (2 \<le> length cs
        \<and> (\<forall>i. Suc i < length cs \<longrightarrow>
              close (cs ! i) \<noteq> 0 \<and> 0 < close (cs ! Suc i) / close (cs ! i)) \<longrightarrow>
        calculateVolatility cs =
          (let rs = map (\<lambda>i. ln (close (cs ! Suc i) / close (cs ! i))) [0..<length cs - 1];
               n = real (length cs - 1);
               mean = sum_list rs / n
           in Finite (sqrt (sum_list (map (\<lambda>r. (r - mean)\<^sup>2) rs) / n) * sqrt 252)))"
proof (intro conjI impI)
  assume "length cs < 5"
  then show "detectTrend cs = ''Insufficient data''"
    by (simp add: detectTrend_def)
next
  assume "length cs < 2"
  then show "calculateVolatility cs = Finite 0" and "calculatePriceChange cs = Finite 0"
    by (simp_all add: calculateVolatility_def calculatePriceChange_def)
next
  assume "2 \<le> length cs \<and> close (cs ! 0) \<noteq> 0"
  then show "calculatePriceChange cs
          = Finite ((close (cs ! (length cs - 1)) - close (cs ! 0)) / close (cs ! 0) * 100)"
    by (intro calculatePriceChange_finite) simp_all
next
  assume h: "2 \<le> length cs
        \<and> (\<forall>i. Suc i < length cs \<longrightarrow>
              close (cs ! i) \<noteq> 0 \<and> 0 < close (cs ! Suc i) / close (cs ! i))"
  show "calculateVolatility cs =
          (let rs = map (\<lambda>i. ln (close (cs ! Suc i) / close (cs ! i))) [0..<length cs - 1];
               n = real (length cs - 1);
               mean = sum_list rs / n
           in Finite (sqrt (sum_list (map (\<lambda>r. (r - mean)\<^sup>2) rs) / n) * sqrt 252))"
  proof (rule calculateVolatility_finite)
    show "2 \<le> length cs" using h by simp
  next
    fix i assume "Suc i < length cs"
    with h show "close (cs ! i) \<noteq> 0 \<and> 0 < close (cs ! Suc i) / close (cs ! i)"
      by blast
  qed
qed

theorem classifier_short_series_witness:
  "length (series [3]) < 5 \<and> length (series [3]) < 2
   \<and> detectTrend (series [3]) = ''Insufficient data''
   \<and> calculateVolatility (series [3]) = Finite 0
   \<and> calculatePriceChange (series [3]) = Finite 0
   \<and> 2 \<le> length (series [1, 2]) \<and> close (series [1, 2] ! 0) \<noteq> 0
   \<and> 0 < close (series [1, 2] ! Suc 0) / close (series [1, 2] ! 0)
   \<and> detectTrend (series [1, 2]) = ''Insufficient data''
   \<and> calculatePriceChange (series [1, 2]) = Finite 100
   \<and> calculateVolatility (series [1, 2]) = Finite 0"
proof -
  have short: "length (series [3]) < 5" "length (series [3]) < 2"
    by (simp_all add: length_series)
  have two: "length (series [1, 2]) = 2" "close (series [1, 2] ! 0) = 1"
    "close (series [1, 2] ! Suc 0) = 2"
    by (simp_all add: length_series close_series_nth)
  have ratios: "\<forall>i. Suc i < length (series [1, 2]) \<longrightarrow>
      close (series [1, 2] ! i) \<noteq> 0 \<and> 0 < close (series [1, 2] ! Suc i) / close (series [1, 2] ! i)"
    by (simp add: two)
  note one = classifier_short_series [of "series [3]"]
  note pair = classifier_short_series [of "series [1, 2]"]
  from one short have a: "detectTrend (series [3]) = ''Insufficient data''"
    "calculateVolatility (series [3]) = Finite 0" "calculatePriceChange (series [3]) = Finite 0"
    by blast+
  from pair two have b: "detectTrend (series [1, 2]) = ''Insufficient data''"
    by simp
  from pair two have c: "calculatePriceChange (series [1, 2]) = Finite 100"
    by simp
  from pair ratios two(1) have "calculateVolatility (series [1, 2]) =
      (let rs = map (\<lambda>i. ln (close (series [1, 2] ! Suc i) / close (series [1, 2] ! i)))
                  [0..<length (series [1, 2]) - 1];
           n = real (length (series [1, 2]) - 1);
           mean = sum_list rs / n
       in Finite (sqrt (sum_list (map (\<lambda>r. (r - mean)\<^sup>2) rs) / n) * sqrt 252))"
    by simp
  then have d: "calculateVolatility (series [1, 2]) = Finite 0"
    by (simp add: Let_def two)
  from short two a b c d show ?thesis by simp
qed

text \<open>
  Three candles with closes 1, 2, 2 are fewer than five, and the trend is
  \<^verbatim>\<open>"Insufficient data"\<close>; the period change is 100 and the volatility is not 0.
\<close>

theorem classifier_short_series_counterexample:
  "length (series [1, 2, 2]) < 5
   \<and> detectTrend (applyIndicators (series [1, 2, 2])) = ''Insufficient data''
   \<and> calculatePriceChange (series [1, 2, 2]) = Finite 100
   \<and> calculateVolatility (series [1, 2, 2]) \<noteq> Finite 0"
proof -
  have "ln (2::real) \<noteq> 0" by simp
  then have "calculateVolatility (series [1, 2, 2]) \<noteq> Finite 0"
    by (simp add: calculateVolatility_122)
  moreover have "calculatePriceChange (series [1, 2, 2]) = Finite 100"
    using calculatePriceChange_finite [of "series [1, 2, 2]"] by (simp add: series_122)
  ultimately show ?thesis
    by (simp add: detectTrend_def length_applyIndicators series_122)
qed

text \<open>The indicators of the last candles of \<open>closes25\<close>.\<close>

lemma calculateEMA_closes25:
  "js_get (calculateEMA closes25 20) 19 = Some 10"
  "js_get (calculateEMA closes25 20) 20 = Some 11"
  "js_get (calculateEMA closes25 20) 24 = Some 10.5"
  by code_simp+

lemma calculateRSI_closes25: "js_get (calculateRSI closes25 14) 23 = Some 61.875"
  by code_simp

lemma annotated_closes25:
  "length (applyIndicators (series closes25)) = 25"
  "ema_20 (applyIndicators (series closes25) ! 19) = Some 10"
  "ema_20 (applyIndicators (series closes25) ! 20) = Some 11"
  "ema_20 (applyIndicators (series closes25) ! 24) = Some 10.5"
  "rsi_14 (applyIndicators (series closes25) ! 24) = Some 61.875"
proof -
  have len: "length (series closes25) = 25"
    by (simp add: length_series closes25_def)
  then show "length (applyIndicators (series closes25)) = 25"
    by (simp add: length_applyIndicators)
  show "ema_20 (applyIndicators (series closes25) ! 19) = Some 10"
    "ema_20 (applyIndicators (series closes25) ! 20) = Some 11"
    "ema_20 (applyIndicators (series closes25) ! 24) = Some 10.5"
    using len by (simp_all add: applyIndicators_ema_20 close_series calculateEMA_closes25 js_or_def)
  have "rsi_14 (applyIndicators (series closes25) ! Suc 23)
          = Some (js_or (js_get (calculateRSI (map close (series closes25)) 14) 23) 50)"
    using len by (intro applyIndicators_rsi_14) simp
  then show "rsi_14 (applyIndicators (series closes25) ! 24) = Some 61.875"
    by (simp add: close_series calculateRSI_closes25 js_or_def)
qed

text \<open>
  Claim C6, as the code has it. On five or more candles \<^verbatim>\<open>detectTrend\<close> compares the last
  candle with the fifth candle from the end, \<^verbatim>\<open>data[data.length - 5]\<close>, which lies four
  positions before the last. It returns \<^verbatim>\<open>"Uptrend"\<close> exactly when the last EMA exceeds that
  candle's EMA and the last RSI exceeds 55, \<^verbatim>\<open>"Downtrend"\<close> exactly when the last EMA is
  below it and the last RSI is below 45, and \<^verbatim>\<open>"Sideways"\<close> exactly when neither holds; a
  missing EMA counts as 0 and a missing RSI as 50.
\<close>

theorem detectTrend_rule:
  assumes "5 \<le> length cs"
  shows "(detectTrend cs = ''Uptrend'' \<longleftrightarrow>
            js_nullish (ema_20 (cs ! (length cs - 1))) 0 > js_nullish (ema_20 (cs ! (length cs - 5))) 0
            \<and> js_nullish (rsi_14 (cs ! (length cs - 1))) 50 > 55)
       \<and> (detectTrend cs = ''Downtrend'' \<longleftrightarrow>
            js_nullish (ema_20 (cs ! (length cs - 1))) 0 < js_nullish (ema_20 (cs ! (length cs - 5))) 0
            \<and> js_nullish (rsi_14 (cs ! (length cs - 1))) 50 < 45)
       \<and> (detectTrend cs = ''Sideways'' \<longleftrightarrow>
            \<not> (js_nullish (ema_20 (cs ! (length cs - 1))) 0 > js_nullish (ema_20 (cs ! (length cs - 5))) 0
               \<and> js_nullish (rsi_14 (cs ! (length cs - 1))) 50 > 55)
            \<and> \<not> (js_nullish (ema_20 (cs ! (length cs - 1))) 0 < js_nullish (ema_20 (cs ! (length cs - 5))) 0
               \<and> js_nullish (rsi_14 (cs ! (length cs - 1))) 50 < 45))
       \<and> js_nullish None 0 = 0 \<and> js_nullish None 50 = 50"
  using assms by (auto simp: detectTrend_def Let_def js_nullish_def)


theorem detectTrend_rule_witness:
  "5 \<le> length (applyIndicators (series closes25))
   \<and> detectTrend (applyIndicators (series closes25)) \<noteq> ''Uptrend''
   \<and> detectTrend (applyIndicators (series closes25)) \<noteq> ''Downtrend''
   \<and> detectTrend (applyIndicators (series closes25)) = ''Sideways''"
proof -
  have h: "5 \<le> length (applyIndicators (series closes25))"
    by (simp add: annotated_closes25)
  from detectTrend_rule [OF h] show ?thesis
    by (simp add: annotated_closes25 js_nullish_def)
qed

text \<open>
  The specification compares with the candle five positions before the last. On the annotated
  \<open>closes25\<close> the last EMA (10.5) exceeds the EMA five positions earlier (10, at index 19)
  and the last RSI (61.875) exceeds 55, yet the trend is \<^verbatim>\<open>"Sideways"\<close>: the code compares
  with index 20, where the EMA is 11.
\<close>

theorem detectTrend_five_positions_counterexample:
  "5 \<le> length (applyIndicators (series closes25))
   \<and> js_nullish (ema_20 (applyIndicators (series closes25)
          ! (length (applyIndicators (series closes25)) - 1))) 0
       > js_nullish (ema_20 (applyIndicators (series closes25)
          ! (length (applyIndicators (series closes25)) - 1 - 5))) 0
   \<and> js_nullish (rsi_14 (applyIndicators (series closes25)
          ! (length (applyIndicators (series closes25)) - 1))) 50 > 55
   \<and> detectTrend (applyIndicators (series closes25)) = ''Sideways''"
  by (simp add: detectTrend_def Let_def annotated_closes25 js_nullish_def)


subsection \<open>generateOverallAnalysis\<close>

lemma foldl_tally_step:
  "bullishCount (foldl tally_step s tfs)
     = bullishCount s + length (filter (\<lambda>tf. data tf \<noteq> [] \<and> trend tf = ''Uptrend'') tfs)
   \<and> bearishCount (foldl tally_step s tfs)
     = bearishCount s + length (filter (\<lambda>tf. data tf \<noteq> [] \<and> trend tf = ''Downtrend'') tfs)
   \<and> validTimeframes (foldl tally_step s tfs)
     = validTimeframes s + length (filter (\<lambda>tf. data tf \<noteq> []) tfs)"
  by (induction tfs arbitrary: s) (simp_all add: tally_step_def Let_def)

lemma foldl_tally_step_empty:
  "(\<And>tf. tf \<in> set tfs \<Longrightarrow> data tf = []) \<Longrightarrow> foldl tally_step s tfs = s"
  by (induction tfs arbitrary: s) (simp_all add: tally_step_def)

lemma filter_all_nonempty:
  "(\<And>tf. tf \<in> set tfs \<Longrightarrow> data tf \<noteq> []) \<Longrightarrow>
     filter (\<lambda>tf. data tf \<noteq> [] \<and> P tf) tfs = filter P tfs"
  by (induction tfs) simp_all

text \<open>
  Claim C5. The sentiment is decided by the number of reports with data and trend
  \<^verbatim>\<open>"Uptrend"\<close> (bullish) against the number with data and trend \<^verbatim>\<open>"Downtrend"\<close> (bearish):
  \<^verbatim>\<open>"Bullish"\<close> if bullish exceeds bearish + 2, \<^verbatim>\<open>"Bearish"\<close> if bearish exceeds bullish + 2,
  else \<^verbatim>\<open>"Slightly Bullish"\<close> if bullish exceeds bearish, else \<^verbatim>\<open>"Slightly Bearish"\<close> if
  bearish exceeds bullish, else \<^verbatim>\<open>"Neutral"\<close>. Nine reports with data, seven of them
  \<^verbatim>\<open>"Uptrend"\<close> and none \<^verbatim>\<open>"Downtrend"\<close>, give \<^verbatim>\<open>"Bullish"\<close>.
\<close>

theorem generateOverallAnalysis_sentiment:
  "sentiment (generateOverallAnalysis tfs) =
     (let bullish = length (filter (\<lambda>tf. data tf \<noteq> [] \<and> trend tf = ''Uptrend'') tfs);
          bearish = length (filter (\<lambda>tf. data tf \<noteq> [] \<and> trend tf = ''Downtrend'') tfs)
      in if bullish > bearish + 2 then ''Bullish''
         else if bearish > bullish + 2 then ''Bearish''
         else if bullish > bearish then ''Slightly Bullish''
         else if bearish > bullish then ''Slightly Bearish''
         else ''Neutral'')
   \<and> (length tfs = 9 \<and> (\<forall>tf \<in> set tfs. data tf \<noteq> [])
        \<and> length (filter (\<lambda>tf. trend tf = ''Uptrend'') tfs) = 7
        \<and> length (filter (\<lambda>tf. trend tf = ''Downtrend'') tfs) = 0
      \<longrightarrow> sentiment (generateOverallAnalysis tfs) = ''Bullish'')"
proof -
  have general: "sentiment (generateOverallAnalysis tfs) =
     (let bullish = length (filter (\<lambda>tf. data tf \<noteq> [] \<and> trend tf = ''Uptrend'') tfs);
          bearish = length (filter (\<lambda>tf. data tf \<noteq> [] \<and> trend tf = ''Downtrend'') tfs)
      in if bullish > bearish + 2 then ''Bullish''
         else if bearish > bullish + 2 then ''Bearish''
         else if bullish > bearish then ''Slightly Bullish''
         else if bearish > bullish then ''Slightly Bearish''
         else ''Neutral'')"
    by (simp add: generateOverallAnalysis_def Let_def foldl_tally_step)
  have "sentiment (generateOverallAnalysis tfs) = ''Bullish''"
    if "\<forall>tf \<in> set tfs. data tf \<noteq> []"
      and "length (filter (\<lambda>tf. trend tf = ''Uptrend'') tfs) = 7"
      and "length (filter (\<lambda>tf. trend tf = ''Downtrend'') tfs) = 0"
  proof -
    from that(1) have "filter (\<lambda>tf. data tf \<noteq> [] \<and> trend tf = ''Uptrend'') tfs
        = filter (\<lambda>tf. trend tf = ''Uptrend'') tfs"
      and "filter (\<lambda>tf. data tf \<noteq> [] \<and> trend tf = ''Downtrend'') tfs
        = filter (\<lambda>tf. trend tf = ''Downtrend'') tfs"
      by (simp_all add: filter_all_nonempty)
    with that(2,3) show ?thesis
      by (simp only: general Let_def) simp
  qed
  with general show ?thesis by blast
qed

lemma seven_up_facts:
  "length seven_up = 9"
  "\<forall>tf \<in> set seven_up. data tf \<noteq> []"
  "length (filter (\<lambda>tf. trend tf = ''Uptrend'') seven_up) = 7"
  "length (filter (\<lambda>tf. trend tf = ''Downtrend'') seven_up) = 0"
  by (simp_all add: seven_up_def report_def series_def)

theorem generateOverallAnalysis_sentiment_witness:
  "length seven_up = 9 \<and> length (filter (\<lambda>tf. trend tf = ''Uptrend'') seven_up) = 7
   \<and> length (filter (\<lambda>tf. trend tf = ''Downtrend'') seven_up) = 0
   \<and> sentiment (generateOverallAnalysis seven_up) = ''Bullish''"
  using generateOverallAnalysis_sentiment [of seven_up] seven_up_facts by blast

text \<open>
  Claim C10. When no report has data, \<^verbatim>\<open>generateOverallAnalysis\<close> returns sentiment
  \<^verbatim>\<open>"Neutral"\<close>, risk \<^verbatim>\<open>"Low"\<close> (the average volatility defaults to 0, below 0.15) and
  recommendation \<^verbatim>\<open>"Hold"\<close>.
\<close>

theorem generateOverallAnalysis_no_data:
  assumes "\<forall>tf \<in> set tfs. data tf = []"
  shows "generateOverallAnalysis tfs
           = \<lparr>sentiment = ''Neutral'', risk = ''Low'', recommendation = ''Hold''\<rparr>"
proof -
  have "foldl tally_step
          \<lparr>bullishCount = 0, bearishCount = 0, totalVolatility = Finite 0, validTimeframes = 0\<rparr> tfs
        = \<lparr>bullishCount = 0, bearishCount = 0, totalVolatility = Finite 0, validTimeframes = 0\<rparr>"
    using assms by (intro foldl_tally_step_empty) simp
  then show ?thesis
    by (simp add: generateOverallAnalysis_def)
qed

theorem generateOverallAnalysis_no_data_witness:
  "generateOverallAnalysis (map fallback_entry timeframe_codes)
     = \<lparr>sentiment = ''Neutral'', risk = ''Low'', recommendation = ''Hold''\<rparr>
   \<and> length (map fallback_entry timeframe_codes) = 9
   \<and> data (map fallback_entry timeframe_codes ! 0) = []"
proof -
  have h: "\<forall>tf \<in> set (map fallback_entry timeframe_codes). data tf = []"
    by (simp add: fallback_entry_def)
  from generateOverallAnalysis_no_data [OF h] show ?thesis
    by (simp add: timeframe_codes_def fallback_entry_def)
qed


subsection \<open>getMarketDataByTimeframe\<close>

lemma TIMEFRAME_CONFIG_codes:
  "tf \<in> set timeframe_codes \<Longrightarrow> \<exists>config. TIMEFRAME_CONFIG tf = Some (Own config)"
  by (auto simp: timeframe_codes_def TIMEFRAME_CONFIG_def TIMEFRAME_CONFIG_own_def)

lemma map_of_TIMEFRAME_CONFIG_own:
  "tf \<notin> set timeframe_codes \<Longrightarrow> map_of TIMEFRAME_CONFIG_own tf = None"
  by (simp add: timeframe_codes_def TIMEFRAME_CONFIG_own_def)

text \<open>
  The guard rejects every string that is neither one of the nine codes nor the name of
  a member of \<^verbatim>\<open>Object.prototype\<close>, with an error that names the timeframe.
\<close>

lemma getMarketDataByTimeframe_unsupported:
  assumes "tf \<notin> set timeframe_codes" and "tf \<notin> set Object_prototype"
  shows "getMarketDataByTimeframe acquire coinId tf
           = Inl (Error (''Timeframe '' @ tf @ '' tidak didukung''))"
  using assms
  by (simp add: getMarketDataByTimeframe_def TIMEFRAME_CONFIG_def map_of_TIMEFRAME_CONFIG_own)

text \<open>
  Claim C8, at the timeframe \<^verbatim>\<open>"constructor"\<close>. It is not one of the nine codes, but
  \<^verbatim>\<open>TIMEFRAME_CONFIG["constructor"]\<close> is the inherited \<^verbatim>\<open>Object\<close> function, so \<^verbatim>\<open>!config\<close> is
  false and nothing is thrown at the guard: the call goes on to the data acquisition, and
  returns the empty series when that yields one.
\<close>

theorem getMarketDataByTimeframe_constructor:
  "''constructor'' \<notin> set timeframe_codes
   \<and> TIMEFRAME_CONFIG ''constructor'' = Some Inherited
   \<and> getMarketDataByTimeframe acquire coinId ''constructor''
       = acquire coinId ''constructor'' Inherited
   \<and> getMarketDataByTimeframe (\<lambda>coinId tf config. Inr []) ''bitcoin'' ''constructor'' = Inr []"
  by (simp add: getMarketDataByTimeframe_def TIMEFRAME_CONFIG_def TIMEFRAME_CONFIG_own_def
      Object_prototype_def timeframe_codes_def)

subsection \<open>getMultiTimeframeAnalysis\<close>

lemma foldl_analyze_timeframe:
  "foldl (analyze_timeframe env coinId) acc tfs =
     acc @ map (\<lambda>tf. case try_timeframe env coinId tf of
                        Inr entry \<Rightarrow> entry
                      | Inl error \<Rightarrow> fallback_entry tf) tfs"
  by (induction tfs arbitrary: acc) (simp_all add: analyze_timeframe_def split: sum.splits)

lemma timeframe_fallback_entry: "timeframe (fallback_entry tf) = tf"
  by (simp add: fallback_entry_def)

lemma timeframe_try_timeframe: "try_timeframe env coinId tf = Inr entry \<Longrightarrow> timeframe entry = tf"
  by (auto simp: try_timeframe_def Let_def split: sum.splits)

text \<open>
  The \<^verbatim>\<open>try\<close> block is left by an exception exactly when the data acquisition or the
  computation on its data throws.
\<close>

lemma try_timeframe_fails:
  "(\<exists>e. try_timeframe env coinId tf = Inl e) \<longleftrightarrow>
     (\<exists>e. getMarketDataByTimeframe (acquisition env) coinId tf = Inl e)
     \<or> (\<exists>cs e. getMarketDataByTimeframe (acquisition env) coinId tf = Inr cs
           \<and> generateTimeframeAnalysis env (applyIndicators cs) tf (detectTrend (applyIndicators cs))
                (calculateVolatility cs) (calculatePriceChange cs) = Inl e)"
  by (auto simp: try_timeframe_def Let_def split: sum.splits)

lemma length_timeframe_codes: "length timeframe_codes = 9"
  by (simp add: timeframe_codes_def)


text \<open>
  Once the coin is resolved, the call returns an analysis with one entry per timeframe,
  in the order of the nine codes, whatever the \<^verbatim>\<open>try\<close> blocks do.
\<close>

lemma getMultiTimeframeAnalysis_resolved:
  assumes "getCoinId env symb = Inr coinId"
  shows "\<exists>a. getMultiTimeframeAnalysis env symb = Inr a
           \<and> length (timeframes a) = 9
           \<and> map timeframe (timeframes a) = timeframe_codes
           \<and> (\<forall>i < 9.
                (\<forall>e. try_timeframe env coinId (timeframe_codes ! i) = Inl e
                   \<longrightarrow> data (timeframes a ! i) = [] \<and> trend (timeframes a ! i) = ''Unknown''
                       \<and> volatility (timeframes a ! i) = Finite 0
                       \<and> priceChange (timeframes a ! i) = Finite 0)
              \<and> (\<forall>entry. try_timeframe env coinId (timeframe_codes ! i) = Inr entry
                   \<longrightarrow> timeframes a ! i = entry))"
proof -
  let ?entry = "\<lambda>tf. case try_timeframe env coinId tf of
                        Inr entry \<Rightarrow> entry
                      | Inl error \<Rightarrow> fallback_entry tf"
  let ?tfs = "map ?entry timeframe_codes"
  let ?overall = "generateOverallAnalysis ?tfs"
  let ?a = "\<lparr>symbol = toUpperCase env symb, analysisTimestamp = now env, timeframes = ?tfs,
             overallSentiment = sentiment ?overall, riskLevel = risk ?overall,
             tradingRecommendation = recommendation ?overall\<rparr>"
  have result: "getMultiTimeframeAnalysis env symb = Inr ?a"
    using assms by (simp add: getMultiTimeframeAnalysis_def Let_def foldl_analyze_timeframe)
  have "timeframe (?entry tf) = tf" for tf
    by (simp add: timeframe_fallback_entry timeframe_try_timeframe split: sum.splits)
  then have codes: "map timeframe ?tfs = timeframe_codes"
    by (simp add: o_def)
  have entries: "?tfs ! i = ?entry (timeframe_codes ! i)" if "i < 9" for i
    using that by (simp add: length_timeframe_codes)
  have failed: "data (?tfs ! i) = [] \<and> trend (?tfs ! i) = ''Unknown''
        \<and> volatility (?tfs ! i) = Finite 0 \<and> priceChange (?tfs ! i) = Finite 0"
    if "i < 9" and "try_timeframe env coinId (timeframe_codes ! i) = Inl e" for i e
    using that by (simp add: entries fallback_entry_def)
  have computed: "?tfs ! i = entry"
    if "i < 9" and "try_timeframe env coinId (timeframe_codes ! i) = Inr entry" for i entry
    using that by (simp add: entries)
  have "length (timeframes ?a) = 9"
    by (simp add: length_timeframe_codes)
  moreover have "map timeframe (timeframes ?a) = timeframe_codes"
    using codes by simp
  moreover have "\<forall>i < 9.
       (\<forall>e. try_timeframe env coinId (timeframe_codes ! i) = Inl e
          \<longrightarrow> data (timeframes ?a ! i) = [] \<and> trend (timeframes ?a ! i) = ''Unknown''
              \<and> volatility (timeframes ?a ! i) = Finite 0
              \<and> priceChange (timeframes ?a ! i) = Finite 0)
     \<and> (\<forall>entry. try_timeframe env coinId (timeframe_codes ! i) = Inr entry
          \<longrightarrow> timeframes ?a ! i = entry)"
    using failed computed by simp
  ultimately show ?thesis
    using result by blast
qed

text \<open>The coin lookup is awaited before the loop and outside every \<^verbatim>\<open>try\<close>: its exception leaves the call.\<close>

lemma getMultiTimeframeAnalysis_lookup_fails:
  "getCoinId env symb = Inl e \<Longrightarrow> getMultiTimeframeAnalysis env symb = Inl e"
  by (simp add: getMultiTimeframeAnalysis_def)

text \<open>
  Claim C3, as the code has it. The call fails as a whole exactly when the coin lookup
  throws, and then with the lookup's error. When the lookup returns a coin, the call
  returns an analysis with one entry per timeframe, in the order of the nine codes: the
  entry of a timeframe whose \<^verbatim>\<open>try\<close> block throws (in the data acquisition or in the
  computation) has empty data, trend \<^verbatim>\<open>"Unknown"\<close>, volatility 0 and price change 0, and
  the entry of every other timeframe is the one its own \<^verbatim>\<open>try\<close> block computes, whatever
  happened to the timeframes before it.
\<close>

theorem getMultiTimeframeAnalysis_partial_result:
  "(\<forall>e. getCoinId env symb = Inl e \<longrightarrow> getMultiTimeframeAnalysis env symb = Inl e)
   \<and> (\<forall>coinId. getCoinId env symb = Inr coinId \<longrightarrow>
        (\<exists>a. getMultiTimeframeAnalysis env symb = Inr a
           \<and> length (timeframes a) = 9
           \<and> map timeframe (timeframes a) = timeframe_codes
           \<and> (\<forall>i < 9.
                (\<forall>e. try_timeframe env coinId (timeframe_codes ! i) = Inl e
                   \<longrightarrow> data (timeframes a ! i) = [] \<and> trend (timeframes a ! i) = ''Unknown''
                       \<and> volatility (timeframes a ! i) = Finite 0
                       \<and> priceChange (timeframes a ! i) = Finite 0)
              \<and> (\<forall>entry. try_timeframe env coinId (timeframe_codes ! i) = Inr entry
                   \<longrightarrow> timeframes a ! i = entry))))"
  using getMultiTimeframeAnalysis_lookup_fails [of env symb]
    getMultiTimeframeAnalysis_resolved [of env symb]
  by blast

lemma env_1h_fails_try:
  "try_timeframe env_1h_fails ''bitcoin'' (timeframe_codes ! 2)
     = Inl (Error ''Gagal mengambil data harga untuk timeframe 1h'')"
  "try_timeframe env_1h_fails ''bitcoin'' (timeframe_codes ! 5) = Inl (Error ''TypeError'')"
  "try_timeframe env_1h_fails ''bitcoin'' (timeframe_codes ! 3)
     = Inr \<lparr>timeframe = ''12h'', duration = Some ''12 Jam'',
            data = applyIndicators (series [1, 2, 2]), analysis = ''Analisis 12h: '',
            trend = ''Insufficient data'', volatility = calculateVolatility (series [1, 2, 2]),
            priceChange = Finite 100, volume24h = None\<rparr>"
  by (simp_all add: try_timeframe_def getMarketDataByTimeframe_def TIMEFRAME_CONFIG_def
      TIMEFRAME_CONFIG_own_def timeframe_codes_def env_1h_fails_def timeframeLabels_def Let_def
      detectTrend_def length_applyIndicators calculatePriceChange_def series_122)

theorem getMultiTimeframeAnalysis_partial_result_witness:
  "getCoinId env_1h_fails ''btc'' = Inr ''bitcoin''
   \<and> (\<exists>a. getMultiTimeframeAnalysis env_1h_fails ''btc'' = Inr a
         \<and> length (timeframes a) = 9
         \<and> map timeframe (timeframes a) = timeframe_codes
         \<and> data (timeframes a ! 2) = [] \<and> trend (timeframes a ! 2) = ''Unknown''
         \<and> volatility (timeframes a ! 2) = Finite 0 \<and> priceChange (timeframes a ! 2) = Finite 0
         \<and> data (timeframes a ! 5) = [] \<and> trend (timeframes a ! 5) = ''Unknown''
         \<and> trend (timeframes a ! 3) = ''Insufficient data''
         \<and> priceChange (timeframes a ! 3) = Finite 100)
   \<and> getCoinId env_unknown_coin ''xyz'' = Inl (Error ''Gagal mengambil coin ID: xyz'')
   \<and> getMultiTimeframeAnalysis env_unknown_coin ''xyz'' = Inl (Error ''Gagal mengambil coin ID: xyz'')"
proof -
  have h: "getCoinId env_1h_fails ''btc'' = Inr ''bitcoin''"
    by (simp add: env_1h_fails_def)
  have u: "getCoinId env_unknown_coin ''xyz'' = Inl (Error ''Gagal mengambil coin ID: xyz'')"
    by (simp add: env_unknown_coin_def)
  from getMultiTimeframeAnalysis_partial_result [of env_unknown_coin "''xyz''"] u
  have whole: "getMultiTimeframeAnalysis env_unknown_coin ''xyz''
                 = Inl (Error ''Gagal mengambil coin ID: xyz'')"
    by blast
  from getMultiTimeframeAnalysis_partial_result [of env_1h_fails "''btc''"] h
  obtain a where a: "getMultiTimeframeAnalysis env_1h_fails ''btc'' = Inr a"
    "length (timeframes a) = 9" "map timeframe (timeframes a) = timeframe_codes"
    and each: "\<forall>i < 9.
        (\<forall>e. try_timeframe env_1h_fails ''bitcoin'' (timeframe_codes ! i) = Inl e
           \<longrightarrow> data (timeframes a ! i) = [] \<and> trend (timeframes a ! i) = ''Unknown''
               \<and> volatility (timeframes a ! i) = Finite 0
               \<and> priceChange (timeframes a ! i) = Finite 0)
      \<and> (\<forall>entry. try_timeframe env_1h_fails ''bitcoin'' (timeframe_codes ! i) = Inr entry
           \<longrightarrow> timeframes a ! i = entry)"
    by blast
  from each [THEN spec, of 2] env_1h_fails_try(1)
  have failed2: "data (timeframes a ! 2) = [] \<and> trend (timeframes a ! 2) = ''Unknown''
      \<and> volatility (timeframes a ! 2) = Finite 0 \<and> priceChange (timeframes a ! 2) = Finite 0"
    by simp
  from each [THEN spec, of 5] env_1h_fails_try(2)
  have failed5: "data (timeframes a ! 5) = [] \<and> trend (timeframes a ! 5) = ''Unknown''"
    by simp
  from each [THEN spec, of 3] env_1h_fails_try(3)
  have "trend (timeframes a ! 3) = ''Insufficient data''
      \<and> priceChange (timeframes a ! 3) = Finite 100"
    by simp
  with h u whole a failed2 failed5 show ?thesis by blast
qed

text \<open>
  The specification lets the call always return a partial result. For a symbol whose
  lookup throws, the call returns nothing: it throws the lookup's error.
\<close>

theorem getMultiTimeframeAnalysis_lookup_counterexample:
  "getCoinId env_unknown_coin ''nosuchcoin'' = Inl (Error ''Gagal mengambil coin ID: nosuchcoin'')
   \<and> getMultiTimeframeAnalysis env_unknown_coin ''nosuchcoin''
       = Inl (Error ''Gagal mengambil coin ID: nosuchcoin'')"
  by (simp add: getMultiTimeframeAnalysis_def env_unknown_coin_def)

end
